theory Spec2Isabelle
  imports Complex_Main "HOL-Library.Multiset" "HOL-Library.Log_Nat"
begin

section \<open>JavaScript values\<close>

text \<open>
  The dashboard script (\<^verbatim>\<open>src/script.js\<close>) computes with JavaScript numbers, strings and
  plain objects. Numbers are modelled as exact values together with \<^verbatim>\<open>NaN\<close>: a price is a
  \<open>real numero\<close>, the result of \<^verbatim>\<open>Number.parseInt\<close> an \<open>int numero\<close>. The price
  simulator, whose bound depends on it, computes as the script does, in doubles: each of
  its operations rounds to the nearest double. Elsewhere the arithmetic is exact. The
  infinities and the sign of zero are not modelled. Text is a list of bytes, the UTF-8
  form of the script's own text.
\<close>

datatype 'a numero = Num 'a | NaN

text \<open>
  The exceptions: a \<^verbatim>\<open>TypeError\<close> (a member of \<^verbatim>\<open>undefined\<close> or \<^verbatim>\<open>null\<close> is read, or
  what is called is no function) and the database's \<^verbatim>\<open>DOMException\<close>.
\<close>

datatype erro = TypeError | DOMException

text \<open>
  Reading \<^verbatim>\<open>obj[key]\<close> on an object written as a literal finds the object's own property,
  or else a member inherited from \<^verbatim>\<open>Object.prototype\<close>, or else \<^verbatim>\<open>undefined\<close>.
\<close>

datatype 'a leitura = Propria 'a | Herdada string | Ausente

definition herdadas :: "string list" where
  "herdadas =
     [''constructor'', ''hasOwnProperty'', ''isPrototypeOf'', ''propertyIsEnumerable'',
      ''toLocaleString'', ''toString'', ''valueOf'', ''__defineGetter__'',
      ''__defineSetter__'', ''__lookupGetter__'', ''__lookupSetter__'', ''__proto__'']"

definition ler :: "(string \<rightharpoonup> 'a) \<Rightarrow> string \<Rightarrow> 'a leitura" where
  "ler obj k =
     (case obj k of
        Some v \<Rightarrow> Propria v
      | None \<Rightarrow> if k \<in> set herdadas then Herdada k else Ausente)"

section \<open>Numbers and text\<close>

text \<open>
  The product of two numbers is \<^verbatim>\<open>NaN\<close> as soon as one factor is. A comparison with
  \<^verbatim>\<open>NaN\<close> is false, and \<^verbatim>\<open>NaN\<close> and zero are the falsy numbers.
\<close>

fun vezes :: "real numero \<Rightarrow> real numero \<Rightarrow> real numero" where
  "vezes (Num x) (Num y) = Num (x * y)"
| "vezes _ _ = NaN"

fun menorIgual :: "int numero \<Rightarrow> int \<Rightarrow> bool" where
  "menorIgual (Num x) y = (x \<le> y)"
| "menorIgual NaN y = False"

fun verdadeiro :: "real numero \<Rightarrow> bool" where
  "verdadeiro (Num x) = (x \<noteq> 0)"
| "verdadeiro NaN = False"

text \<open>An integer read by \<^verbatim>\<open>parseInt\<close> is the same number in arithmetic with prices.\<close>

fun paraReal :: "int numero \<Rightarrow> real numero" where
  "paraReal (Num k) = Num (of_int k)"
| "paraReal NaN = NaN"

text \<open>
  White space and line terminators, as \<^verbatim>\<open>String.prototype.trim\<close> and \<^verbatim>\<open>parseInt\<close> skip
  them, in their UTF-8 forms of one, two and three bytes: U+0009 to U+000D and U+0020;
  U+00A0; U+1680, U+2000 to U+200A, U+2028, U+2029, U+202F, U+205F, U+3000 and U+FEFF.
\<close>

definition espaco1 :: "char \<Rightarrow> bool" where
  "espaco1 a = (a \<in> set [CHR 0x09, CHR 0x0A, CHR 0x0B, CHR 0x0C, CHR 0x0D, CHR 0x20])"

definition espaco2 :: "char \<Rightarrow> char \<Rightarrow> bool" where
  "espaco2 a b = (a = CHR 0xC2 \<and> b = CHR 0xA0)"

definition espaco3 :: "char \<Rightarrow> char \<Rightarrow> char \<Rightarrow> bool" where
  "espaco3 a b c =
     ((a, b, c) \<in> set
        [(CHR 0xE1, CHR 0x9A, CHR 0x80),
         (CHR 0xE2, CHR 0x80, CHR 0x80), (CHR 0xE2, CHR 0x80, CHR 0x81),
         (CHR 0xE2, CHR 0x80, CHR 0x82), (CHR 0xE2, CHR 0x80, CHR 0x83),
         (CHR 0xE2, CHR 0x80, CHR 0x84), (CHR 0xE2, CHR 0x80, CHR 0x85),
         (CHR 0xE2, CHR 0x80, CHR 0x86), (CHR 0xE2, CHR 0x80, CHR 0x87),
         (CHR 0xE2, CHR 0x80, CHR 0x88), (CHR 0xE2, CHR 0x80, CHR 0x89),
         (CHR 0xE2, CHR 0x80, CHR 0x8A), (CHR 0xE2, CHR 0x80, CHR 0xA8),
         (CHR 0xE2, CHR 0x80, CHR 0xA9), (CHR 0xE2, CHR 0x80, CHR 0xAF),
         (CHR 0xE2, CHR 0x81, CHR 0x9F), (CHR 0xE3, CHR 0x80, CHR 0x80),
         (CHR 0xEF, CHR 0xBB, CHR 0xBF)])"

text \<open>
  Dropping the leading white space, given the tests for its one-, two- and three-byte
  forms.
\<close>

fun tirar ::
  "(char \<Rightarrow> bool) \<Rightarrow> (char \<Rightarrow> char \<Rightarrow> bool) \<Rightarrow> (char \<Rightarrow> char \<Rightarrow> char \<Rightarrow> bool) \<Rightarrow> string \<Rightarrow> string"
where
  "tirar e1 e2 e3 (a # b # c # s) =
     (if e1 a then tirar e1 e2 e3 (b # c # s)
      else if e2 a b then tirar e1 e2 e3 (c # s)
      else if e3 a b c then tirar e1 e2 e3 s
      else a # b # c # s)"
| "tirar e1 e2 e3 [a, b] =
     (if e1 a then tirar e1 e2 e3 [b] else if e2 a b then [] else [a, b])"
| "tirar e1 e2 e3 [a] = (if e1 a then [] else [a])"
| "tirar e1 e2 e3 [] = []"

definition trimStart :: "string \<Rightarrow> string" where
  "trimStart s = tirar espaco1 espaco2 espaco3 s"

text \<open>The trailing white space is the leading one of the reversed text, bytes reversed.\<close>

definition trimEnd :: "string \<Rightarrow> string" where
  "trimEnd s = rev (tirar espaco1 (\<lambda>a b. espaco2 b a) (\<lambda>a b c. espaco3 c b a) (rev s))"

definition trim :: "string \<Rightarrow> string" where
  "trim s = trimEnd (trimStart s)"

text \<open>
  \<^verbatim>\<open>toUpperCase\<close> on the letters a to z; every other byte is kept. The case mapping of
  letters outside ASCII is not modelled (it turns some of them into ASCII capitals, U+0131
  into I for one). What is proved below about the symbol of a purchase is therefore stated
  on the symbol as the handler holds it after this step, or holds for any such mapping.
\<close>

definition maiuscula :: "char \<Rightarrow> char" where
  "maiuscula c =
     (case map_of (zip ''abcdefghijklmnopqrstuvwxyz'' ''ABCDEFGHIJKLMNOPQRSTUVWXYZ'') c of
        Some u \<Rightarrow> u
      | None \<Rightarrow> c)"

definition toUpperCase :: "string \<Rightarrow> string" where
  "toUpperCase s = map maiuscula s"

text \<open>
  \<^verbatim>\<open>Number.parseInt(text)\<close> with no radix: leading white space is skipped, then a sign,
  then \<^verbatim>\<open>0x\<close> or \<^verbatim>\<open>0X\<close> selects radix 16 over radix 10; the longest run of digits of the
  radix is read, and the result is \<^verbatim>\<open>NaN\<close> when there is none. The integer is exact here
  (the script's is a double).
\<close>

definition digito :: "nat \<Rightarrow> char \<Rightarrow> nat option" where
  "digito R c =
     (case map_of (zip ''0123456789abcdefABCDEF''
                     [0, 1, 2, 3, 4, 5, 6, 7, 8, 9, 10, 11, 12, 13, 14, 15, 10, 11, 12, 13, 14, 15]) c of
        Some d \<Rightarrow> if d < R then Some d else None
      | None \<Rightarrow> None)"

definition valorDigitos :: "nat \<Rightarrow> string \<Rightarrow> nat" where
  "valorDigitos R z = foldl (\<lambda>n c. n * R + (case digito R c of Some d \<Rightarrow> d | None \<Rightarrow> 0)) 0 z"

definition parseInt :: "string \<Rightarrow> int numero" where
  "parseInt texto =
     (let s1 = trimStart texto;
          negativo = (case s1 of c # r \<Rightarrow> c = CHR ''-'' | [] \<Rightarrow> False);
          s2 = (case s1 of c # r \<Rightarrow> if c = CHR ''+'' \<or> c = CHR ''-'' then r else s1 | [] \<Rightarrow> s1);
          hexa = (case s2 of a # b # r \<Rightarrow> a = CHR ''0'' \<and> (b = CHR ''x'' \<or> b = CHR ''X'') | _ \<Rightarrow> False);
          R = (if hexa then 16 else 10);
          s3 = (if hexa then drop 2 s2 else s2);
          z = takeWhile (\<lambda>c. digito R c \<noteq> None) s3
      in if z = [] then NaN
         else Num ((if negativo then - 1 else 1) * int (valorDigitos R z)))"

text \<open>Numbers as text: an integer in decimal, and \<^verbatim>\<open>toFixed(2)\<close> of a price.\<close>

definition algarismo :: "nat \<Rightarrow> char" where
  "algarismo d = ''0123456789'' ! (d mod 10)"

fun mostrarNat :: "nat \<Rightarrow> string" where
  "mostrarNat n =
     (if n < 10 then [algarismo n] else mostrarNat (n div 10) @ [algarismo (n mod 10)])"

declare mostrarNat.simps [simp del]

definition mostrarInt :: "int numero \<Rightarrow> string" where
  "mostrarInt q =
     (case q of
        NaN \<Rightarrow> ''NaN''
      | Num k \<Rightarrow> if k < 0 then ''-'' @ mostrarNat (nat (- k)) else mostrarNat (nat k))"

text \<open>
  \<^verbatim>\<open>x.toFixed(2)\<close>: the sign, then the integer nearest to a hundred times the magnitude
  (the larger one on a tie), written with two decimals.
\<close>

definition toFixed2 :: "real numero \<Rightarrow> string" where
  "toFixed2 v =
     (case v of
        NaN \<Rightarrow> ''NaN''
      | Num x \<Rightarrow>
          (let n = nat \<lfloor>\<bar>x\<bar> * 100 + 1 / 2\<rfloor>
           in (if x < 0 then ''-'' else []) @ mostrarNat (n div 100) @ ''.'' @
              [algarismo (n div 10), algarismo n]))"

subsection \<open>Doubles\<close>

text \<open>
  A double has a significand of 53 bits. \<open>expoente x\<close> is the binary exponent of a positive
  \<open>x\<close>: the integer \<open>e\<close> with \<open>2 powi e \<le> x < 2 powi (e + 1)\<close>. Below \<open>2 powi (- 1022)\<close> the
  doubles are the multiples of \<open>2 powi (- 1074)\<close>. \<open>arred x\<close> is the double nearest to \<open>x\<close>,
  the one with the even significand when two are equally near: the result an arithmetic
  operation of the script has when its exact result is \<open>x\<close>. A result beyond the largest
  double would be an infinity; the model has none and goes on rounding to 53 bits.
\<close>

definition expoente :: "real \<Rightarrow> int" where
  "expoente x =
     (if 1 \<le> x then bitlen \<lfloor>x\<rfloor> - 1 else - bitlen (\<lceil>1 / x\<rceil> - 1))"

definition inteiroProximo :: "real \<Rightarrow> int" where
  "inteiroProximo y =
     (let n = \<lfloor>y\<rfloor>; f = y - of_int n
      in if f < 1 / 2 then n else if 1 / 2 < f then n + 1 else if even n then n else n + 1)"

definition arred :: "real \<Rightarrow> real" where
  "arred x =
     (if x = 0 then 0
      else (let e = max (expoente \<bar>x\<bar>) (- 1022); q = 2 powi (e - 52)
            in q * of_int (inteiroProximo (x / q))))"

text \<open>
  The operations on doubles. The quotient by zero is \<^verbatim>\<open>NaN\<close> for a zero dividend, the only
  one the script divides by zero (any other dividend would give an infinity).
\<close>

fun vezesD :: "real numero \<Rightarrow> real numero \<Rightarrow> real numero" where
  "vezesD (Num x) (Num y) = Num (arred (x * y))"
| "vezesD _ _ = NaN"

fun menosD :: "real numero \<Rightarrow> real numero \<Rightarrow> real numero" where
  "menosD (Num x) (Num y) = Num (arred (x - y))"
| "menosD _ _ = NaN"

fun dividirD :: "real numero \<Rightarrow> real numero \<Rightarrow> real numero" where
  "dividirD (Num x) (Num y) = (if y = 0 then NaN else Num (arred (x / y)))"
| "dividirD _ _ = NaN"

section \<open>The price simulator\<close>

text \<open>
  \<^verbatim>\<open>precosAtuais\<close> holds the latest price of each symbol. \<^verbatim>\<open>simularDadosPrecos\<close> maps the
  three tracked symbols, in order, to a quote: the stored price moved by a percentage
  drawn between -0.5 and 0.5. \<open>rnd i\<close> is the value of the \<open>i\<close>-th call of
  \<^verbatim>\<open>Math.random\<close>. Every subtraction, product, quotient and sum is the script's, on
  doubles, and is rounded; the literal 84.2 is the double nearest to it. A stored price
  that is missing reads as \<^verbatim>\<open>undefined\<close>, and the arithmetic on it gives \<^verbatim>\<open>NaN\<close>. The 300
  ms timer before the computation is left out.
\<close>

type_synonym precos = "string \<rightharpoonup> real numero"

definition precosAtuais0 :: precos where
  "precosAtuais0 =
     [''BRENT'' \<mapsto> Num 85.5, ''WTI'' \<mapsto> Num 82.75, ''OPEC'' \<mapsto> Num (arred 84.2)]"

record cotacao =
  simbolo :: string
  nome :: string
  preco :: "real numero"
  variacao :: "real numero"
  moeda :: string

definition simbolos :: "string list" where
  "simbolos = [''BRENT'', ''WTI'', ''OPEC'']"

definition cotar :: "precos \<Rightarrow> (nat \<Rightarrow> real) \<Rightarrow> nat \<Rightarrow> string \<Rightarrow> cotacao" where
  "cotar pa rnd i s =
     (let precoAnterior = (case ler pa s of Propria v \<Rightarrow> v | _ \<Rightarrow> NaN);
          variacao = arred (arred (rnd i - 0.5) * 1);
          novoPreco = vezesD precoAnterior (Num (arred (1 + arred (variacao / 100))));
          variacaoPercentual =
            vezesD (dividirD (menosD novoPreco precoAnterior) precoAnterior) (Num 100)
      in \<lparr>simbolo = s,
          nome = (if s = ''BRENT'' then ''Brent Crude Oil''
                  else if s = ''WTI'' then ''West Texas Intermediate''
                  else ''OPEC Basket''),
          preco = novoPreco,
          variacao = variacaoPercentual,
          moeda = ''USD''\<rparr>)"

definition simularDadosPrecos :: "precos \<Rightarrow> (nat \<Rightarrow> real) \<Rightarrow> cotacao list" where
  "simularDadosPrecos pa rnd = map (\<lambda>(i, s). cotar pa rnd i s) (enumerate 0 simbolos)"

section \<open>The sparkline window\<close>

text \<open>
  \<^verbatim>\<open>historicoSparkline\<close> maps a symbol to the array of its recent prices.
  \<^verbatim>\<open>atualizarSparkline(simbolo, preco)\<close>, here on \<open>s\<close> and \<open>p\<close>, creates the array when
  the symbol has none, pushes the price, and shifts the first entry out once the length
  exceeds 20. An inherited member is truthy and has no \<^verbatim>\<open>push\<close>: the call throws. Drawing
  on the canvas changes no state and is left out. (The only other write to a window, in
  \<^verbatim>\<open>criarCardPreco\<close>, replaces it by an array of one price.)
\<close>

type_synonym historico = "string \<rightharpoonup> real numero list"

definition historicoSparkline0 :: historico where
  "historicoSparkline0 =
     [''BRENT'' \<mapsto> [Num 85.5], ''WTI'' \<mapsto> [Num 82.75], ''OPEC'' \<mapsto> [Num 84.2]]"

definition atualizarSparkline :: "historico \<Rightarrow> string \<Rightarrow> real numero \<Rightarrow> erro + historico" where
  "atualizarSparkline h s p =
     (case ler h s of
        Herdada k \<Rightarrow> Inl TypeError
      | Ausente \<Rightarrow>
          (let ys = [] @ [p]
           in Inr (h(s \<mapsto> (if length ys > 20 then tl ys else ys))))
      | Propria xs \<Rightarrow>
          (let ys = xs @ [p]
           in Inr (h(s \<mapsto> (if length ys > 20 then tl ys else ys)))))"

text \<open>One call per price of a run of updates, stopping at the first that throws.\<close>

fun atualizarTodos :: "historico \<Rightarrow> (string \<times> real numero) list \<Rightarrow> erro + historico" where
  "atualizarTodos h [] = Inr h"
| "atualizarTodos h ((s, p) # us) =
     (case atualizarSparkline h s p of
        Inl e \<Rightarrow> Inl e
      | Inr h' \<Rightarrow> atualizarTodos h' us)"

text \<open>The window of a symbol, empty when the symbol has none.\<close>

definition janela :: "historico \<Rightarrow> string \<Rightarrow> real numero list" where
  "janela h s = (case h s of None \<Rightarrow> [] | Some xs \<Rightarrow> xs)"

text \<open>The specification's side: the newest \<open>n\<close> entries of a history, oldest dropped first.\<close>

definition ultimos :: "nat \<Rightarrow> 'a list \<Rightarrow> 'a list" where
  "ultimos n xs = drop (length xs - n) xs"

definition janelasOk :: "historico \<Rightarrow> bool" where
  "janelasOk h = (\<forall>s. length (janela h s) \<le> 20)"

section \<open>The page, the store and the purchase\<close>

text \<open>
  A value read from an object: a number, or a member inherited from
  \<^verbatim>\<open>Object.prototype\<close> (a function or an object), which converts to the number \<^verbatim>\<open>NaN\<close>.
\<close>

datatype valor = Numero "real numero" | Membro string

fun numeroDe :: "valor \<Rightarrow> real numero" where
  "numeroDe (Numero v) = v"
| "numeroDe (Membro k) = NaN"

text \<open>
  A purchase as the handler builds it. \<open>dataCompra\<close> is the time of
  \<^verbatim>\<open>new Date()\<close> in milliseconds; the script stores its ISO text and reads the time back
  from it when sorting.
\<close>

record compra =
  simbolo :: string
  quantidade :: "int numero"
  precoCompra :: valor
  valorTotal :: "real numero"
  dataCompra :: int

text \<open>
  The database, once open, with its two object stores in key order (the keys are
  assigned in order of insertion).
\<close>

record banco =
  PrecosHistoricos :: "cotacao list"
  Compras :: "compra list"

text \<open>What the element \<^verbatim>\<open>sugestao-ia\<close> and the element \<^verbatim>\<open>lista-historico\<close> show.\<close>

datatype painel = Inicial | Analisando | Sugestao string | SemSugestao

datatype vista = Vazio | Itens "compra list"

text \<open>
  The state the script works on: its global variables, the parts of the page the purchase
  writes to, and the alerts shown so far. \<open>db\<close> is \<open>None\<close> until the database has been
  opened; \<open>sugestaoIA\<close> is \<open>None\<close> on a page without the element \<^verbatim>\<open>sugestao-ia\<close>.
\<close>

record mundo =
  precosAtuais :: precos
  historicoSparkline :: historico
  db :: "banco option"
  sugestaoIA :: "painel option"
  listaHistorico :: vista
  alertas :: "string list"

text \<open>
  What the world outside decides during one submission: the values of \<^verbatim>\<open>Math.random\<close> in
  the price fetch and in the suggestion, the clock, and how the requests to the database
  end. A request to add throws at once, completes, or fails later (its \<^verbatim>\<open>onerror\<close>).
\<close>

datatype pedido = Lancou | Concluiu | Falhou

record ambiente =
  sorteiosPreco :: "nat \<Rightarrow> real"
  sorteiosIA :: "nat \<Rightarrow> real"
  agora :: int
  gravacao :: pedido
  leituraOk :: bool

text \<open>The accented letters and signs of the script's messages, as UTF-8.\<close>

definition aAgudo :: string where "aAgudo = [CHR 0xC3, CHR 0xA1]"
definition aGrave :: string where "aGrave = [CHR 0xC3, CHR 0xA0]"
definition aTil :: string where "aTil = [CHR 0xC3, CHR 0xA3]"
definition cCedilha :: string where "cCedilha = [CHR 0xC3, CHR 0xA7]"
definition eCircunflexo :: string where "eCircunflexo = [CHR 0xC3, CHR 0xAA]"
definition oAgudo :: string where "oAgudo = [CHR 0xC3, CHR 0xB3]"
definition oTil :: string where "oTil = [CHR 0xC3, CHR 0xB5]"
definition sinalSobe :: string where "sinalSobe = [CHR 0xF0, CHR 0x9F, CHR 0x93, CHR 0x88]"
definition sinalBarras :: string where "sinalBarras = [CHR 0xF0, CHR 0x9F, CHR 0x93, CHR 0x8A]"
definition sinalCerto :: string where "sinalCerto = [CHR 0xE2, CHR 0x9C, CHR 0x85]"
definition sinalErrado :: string where "sinalErrado = [CHR 0xE2, CHR 0x9D, CHR 0x8C]"

definition mostrarErro :: "string \<Rightarrow> mundo \<Rightarrow> mundo" where
  "mostrarErro mensagem w = w\<lparr>alertas := alertas w @ [sinalErrado @ '' '' @ mensagem]\<rparr>"

definition mostrarSucesso :: "string \<Rightarrow> mundo \<Rightarrow> mundo" where
  "mostrarSucesso mensagem w = w\<lparr>alertas := alertas w @ [sinalCerto @ '' '' @ mensagem]\<rparr>"

subsection \<open>The price at purchase time\<close>

text \<open>
  \<^verbatim>\<open>obterPrecoAtual\<close> builds a fresh object of three prices, each the fixed base price
  moved by its own draw, and returns \<^verbatim>\<open>precos[simbolo] || 80.0\<close>. The function may read
  the script's globals, so the model takes the state \<open>w\<close>; the body makes no use of it.
  The 500 ms timer before the computation is left out.
\<close>

definition precosSimulados :: "(nat \<Rightarrow> real) \<Rightarrow> precos" where
  "precosSimulados rnd =
     [''BRENT'' \<mapsto> Num (85.5 + (rnd 0 - 0.5) * 2),
      ''WTI'' \<mapsto> Num (82.75 + (rnd 1 - 0.5) * 2),
      ''OPEC'' \<mapsto> Num (84.2 + (rnd 2 - 0.5) * 2)]"

definition obterPrecoAtual :: "mundo \<Rightarrow> (nat \<Rightarrow> real) \<Rightarrow> string \<Rightarrow> valor" where
  "obterPrecoAtual w rnd s =
     (case ler (precosSimulados rnd) s of
        Propria v \<Rightarrow> if verdadeiro v then Numero v else Numero (Num 80.0)
      | Herdada k \<Rightarrow> Membro k
      | Ausente \<Rightarrow> Numero (Num 80.0))"

subsection \<open>Saving\<close>

text \<open>
  \<^verbatim>\<open>salvarCompra\<close> opens a transaction, which throws while \<open>db\<close> is undefined, and asks
  the store to add the purchase. The outcome of the request is the environment's; a
  request that fails is logged and nothing else. The write is counted where it is asked
  for: the transaction completes while the handler waits for the suggestion.
\<close>

definition salvarCompra :: "ambiente \<Rightarrow> mundo \<Rightarrow> compra \<Rightarrow> erro + mundo" where
  "salvarCompra a w c =
     (case db w of
        None \<Rightarrow> Inl TypeError
      | Some b \<Rightarrow>
          (case gravacao a of
             Lancou \<Rightarrow> Inl DOMException
           | Concluiu \<Rightarrow> Inr (w\<lparr>db := Some (b\<lparr>Compras := Compras b @ [c]\<rparr>)\<rparr>)
           | Falhou \<Rightarrow> Inr w))"

subsection \<open>The suggestion\<close>

text \<open>
  \<^verbatim>\<open>simularRespostaIA\<close> waits 2000 ms, draws the trend and then the confidence, and fills
  the template. The result pairs the delay with the sentence. A price that is not a
  number has no \<^verbatim>\<open>toFixed\<close>: the template throws.
\<close>

definition frase ::
  "int \<Rightarrow> int numero \<Rightarrow> string \<Rightarrow> real numero \<Rightarrow> real numero \<Rightarrow> string \<Rightarrow> string"
where
  "frase confianca q s p vt tendencia =
     ''Baseado na an'' @ aAgudo @ ''lise de mercado com '' @ mostrarInt (Num confianca) @
     ''% de confian'' @ cCedilha @ ''a, sua compra de '' @ mostrarInt q @ '' barris de '' @ s @
     '' por $'' @ toFixed2 p @ '' (total: $'' @ toFixed2 vt @ '') est'' @ aAgudo @
     '' em um momento '' @
     (if tendencia = ''alta'' then ''favor'' @ aAgudo @ ''vel''
      else ''de aten'' @ cCedilha @ aTil @ ''o'') @
     ''. A tend'' @ eCircunflexo @ ''ncia atual indica '' @ tendencia @ '' nos pr'' @ oAgudo @
     ''ximos 7-14 dias. Recomendamos '' @
     (if tendencia = ''alta'' then ''manter a posi'' @ cCedilha @ aTil @ ''o e considerar aumentar''
      else ''monitorar de perto e considerar diversificar'') @
     '' seu portf'' @ oAgudo @ ''lio. '' @
     (if tendencia = ''alta'' then sinalSobe @ '' Perspectiva positiva para ganhos.''
      else sinalBarras @ '' Mantenha-se atento '' @ aGrave @ ''s flutua'' @ cCedilha @ oTil @ ''es.'')"

definition simularRespostaIA ::
  "(nat \<Rightarrow> real) \<Rightarrow> string \<Rightarrow> int numero \<Rightarrow> valor \<Rightarrow> erro + nat \<times> string"
where
  "simularRespostaIA rnd s q p =
     (let vt = vezes (paraReal q) (numeroDe p);
          tendencia = (if rnd 0 > 0.5 then ''alta'' else ''baixa'');
          confianca = \<lfloor>rnd 1 * 20\<rfloor> + 70
      in case p of
           Membro k \<Rightarrow> Inl TypeError
         | Numero v \<Rightarrow> Inr (2000, frase confianca q s v vt tendencia))"

text \<open>
  \<^verbatim>\<open>gerarSugestaoIA\<close> writes to the panel before its \<^verbatim>\<open>try\<close>: on a page without the panel
  it throws. Inside the \<^verbatim>\<open>try\<close> a failure of the suggestion only changes what the
  panel shows.
\<close>

definition gerarSugestaoIA ::
  "ambiente \<Rightarrow> mundo \<Rightarrow> string \<Rightarrow> int numero \<Rightarrow> valor \<Rightarrow> erro + mundo"
where
  "gerarSugestaoIA a w s q p =
     (case sugestaoIA w of
        None \<Rightarrow> Inl TypeError
      | Some _ \<Rightarrow>
          (let w1 = w\<lparr>sugestaoIA := Some Analisando\<rparr>
           in case simularRespostaIA (sorteiosIA a) s q p of
                Inr (espera, sugestao) \<Rightarrow> Inr (w1\<lparr>sugestaoIA := Some (Sugestao sugestao)\<rparr>)
              | Inl e \<Rightarrow> Inr (w1\<lparr>sugestaoIA := Some SemSugestao\<rparr>)))"

subsection \<open>The history\<close>

text \<open>
  \<^verbatim>\<open>carregarHistorico\<close> opens a transaction, which throws while \<open>db\<close> is undefined, and
  reads every purchase. When the read succeeds it shows the empty state or one item per
  purchase, after sorting with the comparator
  \<^verbatim>\<open>new Date(b.dataCompra) - new Date(a.dataCompra)\<close>; the sort of an array is stable. A
  read that fails is logged and the list stays as it was. The element
  \<^verbatim>\<open>lista-historico\<close> is taken to exist: it is written only inside the callback of the
  read, where an exception does not reach the caller.
\<close>

definition carregarHistorico :: "ambiente \<Rightarrow> mundo \<Rightarrow> erro + mundo" where
  "carregarHistorico a w =
     (case db w of
        None \<Rightarrow> Inl TypeError
      | Some b \<Rightarrow>
          if leituraOk a
          then Inr (w\<lparr>listaHistorico :=
                       (if Compras b = [] then Vazio
                        else Itens (sort_key (\<lambda>c. - dataCompra c) (Compras b)))\<rparr>)
          else Inr w)"

subsection \<open>The submit handler of the purchase form\<close>

text \<open>
  The body of the handler's \<^verbatim>\<open>try\<close>: the exception thrown, if any, and the state reached.
  Resetting the form fields is left out.
\<close>

definition tentarCompra ::
  "ambiente \<Rightarrow> mundo \<Rightarrow> string \<Rightarrow> int numero \<Rightarrow> erro option \<times> mundo"
where
  "tentarCompra a w s q =
     (let precoAtual = obterPrecoAtual w (sorteiosPreco a) s;
          vt = vezes (numeroDe precoAtual) (paraReal q);
          c = \<lparr>simbolo = s, quantidade = q, precoCompra = precoAtual,
               valorTotal = vt, dataCompra = agora a\<rparr>
      in case salvarCompra a w c of
           Inl e \<Rightarrow> (Some e, w)
         | Inr w1 \<Rightarrow>
             (case gerarSugestaoIA a w1 s q precoAtual of
                Inl e \<Rightarrow> (Some e, w1)
              | Inr w2 \<Rightarrow>
                  (case carregarHistorico a w2 of
                     Inl e \<Rightarrow> (Some e, w2)
                   | Inr w3 \<Rightarrow>
                       (None,
                        mostrarSucesso
                          (sinalCerto @ '' Compra de '' @ mostrarInt q @ '' barris de '' @ s @
                           '' realizada com sucesso!'')
                          w3))))"

definition erroValidacao :: string where
  "erroValidacao = ''Por favor, preencha todos os campos corretamente''"

definition erroCompra :: string where
  "erroCompra = ''Erro ao processar a compra. Tente novamente.''"

definition aoSubmeter :: "ambiente \<Rightarrow> mundo \<Rightarrow> string \<Rightarrow> string \<Rightarrow> mundo" where
  "aoSubmeter a w campoSimbolo campoQuantidade =
     (let s = toUpperCase (trim campoSimbolo);
          q = parseInt campoQuantidade
      in if s = [] \<or> menorIgual q 0 then mostrarErro erroValidacao w
         else (case tentarCompra a w s q of
                 (Some e, w') \<Rightarrow> mostrarErro erroCompra w'
               | (None, w') \<Rightarrow> w'))"

text \<open>
  The handler from its check on, for the symbol and the quantity it has read from the
  form: \<open>aoSubmeter\<close> is this on the trimmed, upper-cased symbol field and the parsed
  quantity field.
\<close>

definition aposLeitura :: "ambiente \<Rightarrow> mundo \<Rightarrow> string \<Rightarrow> int numero \<Rightarrow> mundo" where
  "aposLeitura a w s q =
     (if s = [] \<or> menorIgual q 0 then mostrarErro erroValidacao w
      else (case tentarCompra a w s q of
              (Some e, w') \<Rightarrow> mostrarErro erroCompra w'
            | (None, w') \<Rightarrow> w'))"

subsection \<open>Reading the outcome\<close>

text \<open>The purchases in the store; there are none while the database is not open.\<close>

definition comprasDe :: "mundo \<Rightarrow> compra list" where
  "comprasDe w = (case db w of None \<Rightarrow> [] | Some b \<Rightarrow> Compras b)"

text \<open>The purchase the handler builds for a symbol and a quantity that passed its check.\<close>

definition compraFeita :: "ambiente \<Rightarrow> mundo \<Rightarrow> string \<Rightarrow> int numero \<Rightarrow> compra" where
  "compraFeita a w s q =
     \<lparr>simbolo = s, quantidade = q,
      precoCompra = obterPrecoAtual w (sorteiosPreco a) s,
      valorTotal = vezes (numeroDe (obterPrecoAtual w (sorteiosPreco a) s)) (paraReal q),
      dataCompra = agora a\<rparr>"

text \<open>The success message of the handler, for a quantity and a symbol.\<close>

definition textoSucesso :: "int numero \<Rightarrow> string \<Rightarrow> string" where
  "textoSucesso q s =
     sinalCerto @ '' Compra de '' @ mostrarInt q @ '' barris de '' @ s @ '' realizada com sucesso!''"

subsection \<open>A page and an environment to run the script on\<close>

text \<open>
  The state once the database has been opened for the first time, on a page that has the
  suggestion panel; and an environment in which every request completes, the price draws
  are 0.125 (WTI at 82.00), the trend draw is 0.7 and the confidence draw 0.37.
\<close>

definition mundo0 :: mundo where
  "mundo0 =
     \<lparr>precosAtuais = precosAtuais0, historicoSparkline = historicoSparkline0,
      db = Some \<lparr>PrecosHistoricos = [], Compras = []\<rparr>,
      sugestaoIA = Some Inicial, listaHistorico = Vazio, alertas = []\<rparr>"

definition ambiente0 :: ambiente where
  "ambiente0 =
     \<lparr>sorteiosPreco = (\<lambda>i. 0.125),
      sorteiosIA = (\<lambda>i. if i = 0 then 0.7 else 0.37),
      agora = 1762041600000,
      gravacao = Concluiu,
      leituraOk = True\<rparr>"

text \<open>The same page before the database is open.\<close>

definition mundoSemBanco :: mundo where
  "mundoSemBanco = mundo0\<lparr>db := None\<rparr>"

text \<open>A stored purchase of ten barrels of WTI made at the given time.\<close>

definition compraEm :: "int \<Rightarrow> compra" where
  "compraEm t =
     \<lparr>simbolo = ''WTI'', quantidade = Num 10, precoCompra = Numero (Num 82),
      valorTotal = Num 820, dataCompra = t\<rparr>"

text \<open>The draws of \<^verbatim>\<open>Math.random\<close> that are all 0, its least value.\<close>

definition sorteioNulo :: "nat \<Rightarrow> real" where
  "sorteioNulo i = 0"

text \<open>The letters \<^verbatim>\<open>toUpperCase\<close> replaces.\<close>

definition minuscula :: "char \<Rightarrow> bool" where
  "minuscula c = (c \<in> set ''abcdefghijklmnopqrstuvwxyz'')"

section \<open>Properties of the sparkline window\<close>

lemma ultimos_curto: "length xs \<le> n \<Longrightarrow> ultimos n xs = xs"
  by (simp add: ultimos_def)

lemma length_ultimos: "length (ultimos n xs) \<le> n"
  by (simp add: ultimos_def)

lemma ultimos_ultimos_append: "ultimos n (ultimos n xs @ ys) = ultimos n (xs @ ys)"
proof (cases "length xs \<le> n")
  case True
  then show ?thesis by (simp add: ultimos_def)
next
  case False
  define a where "a = length xs - n"
  have len: "length xs = a + n" using False by (simp add: a_def)
  have "ultimos n (ultimos n xs @ ys) = drop (length ys) (drop a xs @ ys)"
    by (simp add: ultimos_def len)
  also have "\<dots> = drop (length ys + a) xs @ drop (length ys - n) ys"
    by (simp add: len)
  also have "\<dots> = drop (a + n + length ys - n) (xs @ ys)"
    by (simp add: len add.commute)
  also have "\<dots> = ultimos n (xs @ ys)"
    by (simp add: ultimos_def len)
  finally show ?thesis .
qed

lemma ultimos_cheio: "length xs = n \<Longrightarrow> 0 < n \<Longrightarrow> ultimos n (xs @ [p]) = tl (xs @ [p])"
  by (cases xs) (simp_all add: ultimos_def)

lemma janelasOk_inicial: "janelasOk historicoSparkline0"
  by (simp add: janelasOk_def janela_def historicoSparkline0_def)

lemma atualizarSparkline_janela:
  assumes "atualizarSparkline h s p = Inr h'" and "length (janela h s) \<le> 20"
  shows "janela h' k = (if k = s then ultimos 20 (janela h s @ [p]) else janela h k)"
proof (cases "ler h s")
  case (Propria xs)
  then have xs: "h s = Some xs"
    by (auto simp: ler_def split: option.splits if_splits)
  with assms(2) have len: "length xs \<le> 20"
    by (simp add: janela_def)
  from assms(1) Propria
  have h': "h' = h(s \<mapsto> (if length (xs @ [p]) > 20 then tl (xs @ [p]) else xs @ [p]))"
    by (auto simp: atualizarSparkline_def Let_def)
  show ?thesis
  proof (cases "length xs = 20")
    case True
    with h' xs show ?thesis
      by (simp add: janela_def ultimos_cheio)
  next
    case False
    with len h' xs show ?thesis
      by (simp add: janela_def ultimos_def)
  qed
next
  case (Herdada k')
  with assms(1) show ?thesis
    by (simp add: atualizarSparkline_def)
next
  case Ausente
  then have "h s = None"
    by (auto simp: ler_def split: option.splits if_splits)
  moreover from assms(1) Ausente have "h' = h(s \<mapsto> [p])"
    by (auto simp: atualizarSparkline_def Let_def)
  ultimately show ?thesis
    by (simp add: janela_def ultimos_def)
qed

lemma atualizarSparkline_janelasOk:
  assumes "atualizarSparkline h s p = Inr h'" and "janelasOk h"
  shows "janelasOk h'"
proof -
  have "length (janela h' k) \<le> 20" for k
    using atualizarSparkline_janela [OF assms(1), of k] assms(2) length_ultimos [of 20 "janela h s @ [p]"]
    by (simp add: janelasOk_def split: if_splits)
  then show ?thesis
    by (simp add: janelasOk_def)
qed

lemma atualizarTodos_janela:
  "janelasOk h \<Longrightarrow> atualizarTodos h us = Inr h' \<Longrightarrow>
   janelasOk h' \<and>
   (\<forall>k. janela h' k = ultimos 20 (janela h k @ map snd (filter (\<lambda>u. fst u = k) us)))"
proof (induction us arbitrary: h)
  case Nil
  then show ?case
    by (simp add: janelasOk_def ultimos_curto)
next
  case (Cons u us)
  obtain s p where u: "u = (s, p)"
    by (cases u)
  from Cons.prems(2) u obtain h1 where
    h1: "atualizarSparkline h s p = Inr h1" and rest: "atualizarTodos h1 us = Inr h'"
    by (auto split: sum.splits)
  have ok1: "janelasOk h1"
    using atualizarSparkline_janelasOk [OF h1 Cons.prems(1)] .
  have len: "length (janela h s) \<le> 20"
    using Cons.prems(1) by (simp add: janelasOk_def)
  note ih = Cons.IH [OF ok1 rest]
  have "janela h' k = ultimos 20 (janela h k @ map snd (filter (\<lambda>u. fst u = k) (u # us)))" for k
  proof (cases "k = s")
    case True
    with ih atualizarSparkline_janela [OF h1 len, of k] u show ?thesis
      by (simp add: ultimos_ultimos_append)
  next
    case False
    with ih atualizarSparkline_janela [OF h1 len, of k] u show ?thesis
      by simp
  qed
  with ih show ?case
    by simp
qed

lemma atualizarTodos_termina:
  "\<forall>u \<in> set us. fst u \<notin> set herdadas \<Longrightarrow> \<exists>h'. atualizarTodos h us = Inr h'"
proof (induction us arbitrary: h)
  case Nil
  then show ?case by simp
next
  case (Cons u us)
  obtain s p where u: "u = (s, p)"
    by (cases u)
  with Cons.prems have "s \<notin> set herdadas"
    by simp
  then have "\<exists>h1. atualizarSparkline h s p = Inr h1"
    by (cases "h s") (simp_all add: atualizarSparkline_def ler_def Let_def)
  then obtain h1 where "atualizarSparkline h s p = Inr h1"
    by blast
  moreover from Cons.IH [of h1] Cons.prems obtain h' where "atualizarTodos h1 us = Inr h'"
    by auto
  ultimately show ?case
    using u by simp
qed

text \<open>
  Claim C3. From any histories whose windows hold at most 20 prices (the script's initial
  ones do), after any run of sparkline updates that does not throw, every symbol's window
  holds at most 20 prices, and it is exactly the newest 20 of the symbol's earlier window
  followed by the prices pushed for it, in order: the oldest entries are dropped first.
\<close>

theorem sparkline_janela_fifo:
  assumes "janelasOk h" and "atualizarTodos h us = Inr h'"
  shows "(\<forall>s. length (janela h' s) \<le> 20) \<and>
         janela h' k = ultimos 20 (janela h k @ map snd (filter (\<lambda>u. fst u = k) us))"
proof -
  from atualizarTodos_janela [OF assms]
  have ok: "janelasOk h'"
    and eq: "janela h' k = ultimos 20 (janela h k @ map snd (filter (\<lambda>u. fst u = k) us))"
    by blast+
  from ok have "\<forall>s. length (janela h' s) \<le> 20"
    by (simp add: janelasOk_def)
  with eq show ?thesis
    by blast
qed

text \<open>
  Twenty prices pushed for WTI on the initial histories: the initial price 82.75 has left
  the window, the twenty pushed ones fill it.
\<close>

theorem sparkline_janela_fifo_witness:
  "janelasOk historicoSparkline0 \<and>
   (\<exists>h'. atualizarTodos historicoSparkline0 (map (\<lambda>n. (''WTI'', Num (real n))) [1..<21]) = Inr h' \<and>
      (\<forall>s. length (janela h' s) \<le> 20) \<and>
      janela h' ''WTI'' = map (\<lambda>n. Num (real n)) [1..<21] \<and>
      janela h' ''BRENT'' = [Num 85.5])"
proof -
  let ?us = "map (\<lambda>n. (''WTI'', Num (real n))) [1..<21]"
  have "\<forall>u \<in> set ?us. fst u \<notin> set herdadas"
    by (auto simp: herdadas_def)
  then obtain h' where h': "atualizarTodos historicoSparkline0 ?us = Inr h'"
    using atualizarTodos_termina by blast
  have filtro: "map snd (filter (\<lambda>u. fst u = ''WTI'') ?us) = map (\<lambda>n. Num (real n)) [1..<21]"
    by (simp add: filter_map comp_def)
  have vazio: "map snd (filter (\<lambda>u. fst u = ''BRENT'') ?us) = []"
    by (simp add: filter_map comp_def)
  have wti: "janela historicoSparkline0 ''WTI'' = [Num 82.75]"
    and brent: "janela historicoSparkline0 ''BRENT'' = [Num 85.5]"
    by (simp_all add: janela_def historicoSparkline0_def)
  note wti' = sparkline_janela_fifo [OF janelasOk_inicial h', of "''WTI''", unfolded filtro wti]
  note brent' = sparkline_janela_fifo [OF janelasOk_inicial h', of "''BRENT''", unfolded vazio brent]
  from wti' have a: "\<forall>s. length (janela h' s) \<le> 20"
    and b: "janela h' ''WTI'' = ultimos 20 ([Num 82.75] @ map (\<lambda>n. Num (real n)) [1..<21])"
    by blast+
  from brent' have c: "janela h' ''BRENT'' = ultimos 20 ([Num 85.5] @ [])"
    by blast
  have "ultimos 20 ([Num 82.75] @ map (\<lambda>n. Num (real n)) [1..<21]) = map (\<lambda>n. Num (real n)) [1..<21]"
    by (simp add: ultimos_def)
  with a b c h' janelasOk_inicial show ?thesis
    by (simp add: ultimos_def)
qed

section \<open>Rounding to a double\<close>

lemma expoente_grande:
  fixes x :: real
  assumes "1 \<le> x"
  shows "2 powi (expoente x) \<le> x \<and> x < 2 powi (expoente x + 1)"
proof -
  define n where "n = nat \<lfloor>x\<rfloor>"
  define k where "k = floorlog 2 n"
  from assms have n1: "1 \<le> n"
    by (simp add: n_def le_nat_iff)
  then have b: "2 ^ (k - 1) \<le> n" "n < 2 ^ k"
    using floorlog_bounds [of n 2] by (simp_all add: k_def)
  from b(2) n1 have k1: "1 \<le> k"
    by (cases k) simp_all
  have e: "expoente x = int k - 1"
    using assms by (simp add: expoente_def bitlen_def n_def k_def)
  have nx: "real n \<le> x" "x < real n + 1"
    using assms by (simp_all add: n_def)
  have "2 powi (expoente x) = (2::real) ^ (k - 1)"
    using k1 by (simp add: e power_int_def nat_diff_distrib')
  also have "\<dots> \<le> real n"
  proof -
    have "real (2 ^ (k - 1)) \<le> real n"
      using b(1) by (rule of_nat_mono)
    then show ?thesis
      by simp
  qed
  finally have lo: "2 powi (expoente x) \<le> x"
    using nx(1) by linarith
  have "real n + 1 \<le> 2 ^ k"
  proof -
    have "n + 1 \<le> 2 ^ k"
      using b(2) by linarith
    then have "real (n + 1) \<le> real (2 ^ k)"
      by (rule of_nat_mono)
    then show ?thesis
      by simp
  qed
  moreover have "2 powi (expoente x + 1) = (2::real) ^ k"
    by (simp add: e power_int_def)
  ultimately have "x < 2 powi (expoente x + 1)"
    using nx(2) by linarith
  with lo show ?thesis ..
qed

lemma expoente_pequeno:
  fixes x :: real
  assumes "0 < x" and "x < 1"
  shows "2 powi (expoente x) \<le> x \<and> x < 2 powi (expoente x + 1)"
proof -
  define y where "y = 1 / x"
  define m where "m = nat \<lceil>y\<rceil>"
  define k where "k = floorlog 2 (m - 1)"
  from assms have y1: "1 < y"
    by (simp add: y_def)
  then have m2: "2 \<le> m"
    by (simp add: m_def le_nat_iff)
  then have b: "2 ^ (k - 1) \<le> m - 1" "m - 1 < 2 ^ k"
    using floorlog_bounds [of "m - 1" 2] by (simp_all add: k_def)
  from b(2) m2 have k1: "1 \<le> k"
    by (cases k) simp_all
  have "nat (\<lceil>y\<rceil> - 1) = m - 1"
    by (simp add: m_def nat_diff_distrib')
  then have e: "expoente x = - int k"
    using assms by (simp add: expoente_def bitlen_def y_def k_def)
  have "0 \<le> \<lceil>y\<rceil>"
    using y1 by linarith
  then have "real m = of_int \<lceil>y\<rceil>"
    by (simp add: m_def)
  with ceiling_correct [of y] have my: "y \<le> real m" "real m - 1 < y"
    by simp_all
  have "m \<le> 2 ^ k"
    using b(2) m2 by linarith
  then have "real m \<le> real (2 ^ k)"
    by (rule of_nat_mono)
  then have "real m \<le> 2 ^ k"
    by simp
  with my(1) have yk: "y \<le> 2 ^ k"
    by linarith
  have "real (2 ^ (k - 1)) \<le> real (m - 1)"
    using b(1) by (rule of_nat_mono)
  then have "(2::real) ^ (k - 1) \<le> real (m - 1)"
    by simp
  also have "\<dots> = real m - 1"
    using m2 by (simp add: of_nat_diff)
  finally have ky: "(2::real) ^ (k - 1) < y"
    using my(2) by linarith
  have xpos: "0 < x" by fact
  have "2 powi (expoente x) = 1 / (2::real) ^ k"
    by (simp only: e power_int_minus power_int_of_nat divide_inverse mult_1)
  moreover have "1 / (2::real) ^ k \<le> x"
    using yk xpos by (simp add: y_def field_simps)
  ultimately have lo: "2 powi (expoente x) \<le> x"
    by simp
  have "2 powi (expoente x + 1) = 1 / (2::real) ^ (k - 1)"
  proof -
    have "expoente x + 1 = - int (k - 1)"
      using k1 by (simp add: e)
    then show ?thesis
      by (simp only: power_int_minus power_int_of_nat divide_inverse mult_1)
  qed
  moreover have "x < 1 / (2::real) ^ (k - 1)"
    using ky xpos by (simp add: y_def field_simps)
  ultimately have "x < 2 powi (expoente x + 1)"
    by simp
  with lo show ?thesis ..
qed

lemma expoente_limites:
  fixes x :: real
  assumes "0 < x"
  shows "2 powi (expoente x) \<le> x \<and> x < 2 powi (expoente x + 1)"
  using assms expoente_grande [of x] expoente_pequeno [of x] by (cases "1 \<le> x") simp_all

lemma inteiroProximo_erro: "\<bar>of_int (inteiroProximo y) - y\<bar> \<le> 1 / 2"
proof -
  have "of_int \<lfloor>y\<rfloor> \<le> y" "y < of_int \<lfloor>y\<rfloor> + 1"
    by linarith+
  then show ?thesis
    by (auto simp: inteiroProximo_def Let_def abs_le_iff)
qed

lemma arred_erro: "\<bar>arred x - x\<bar> \<le> \<bar>x\<bar> / 2 ^ 53 + 1 / 2 ^ 1075"
proof (cases "x = 0")
  case True
  then show ?thesis by (simp add: arred_def)
next
  case False
  define e where "e = max (expoente \<bar>x\<bar>) (- 1022)"
  define q :: real where "q = 2 powi (e - 52)"
  have qpos: "0 < q"
    by (simp add: q_def)
  have a: "arred x = q * of_int (inteiroProximo (x / q))"
    using False by (simp add: arred_def Let_def e_def q_def)
  have "arred x - x = q * (of_int (inteiroProximo (x / q)) - x / q)"
    using qpos by (simp add: a algebra_simps)
  then have "\<bar>arred x - x\<bar> = q * \<bar>of_int (inteiroProximo (x / q)) - x / q\<bar>"
    using qpos by (simp add: abs_mult)
  also have "\<dots> \<le> q * (1 / 2)"
    using qpos inteiroProximo_erro [of "x / q"] by (intro mult_left_mono) simp_all
  also have "\<dots> = 2 powi (e - 53)"
  proof -
    have "(2::real) powi (e - 52) = 2 powi (e - 53) * 2 powi 1"
      by (subst power_int_add [symmetric]) simp_all
    then show ?thesis
      by (simp add: q_def)
  qed
  finally have b: "\<bar>arred x - x\<bar> \<le> 2 powi (e - 53)" .
  show ?thesis
  proof (cases "- 1022 \<le> expoente \<bar>x\<bar>")
    case True
    then have "e = expoente \<bar>x\<bar>"
      by (simp add: e_def)
    moreover have "2 powi (expoente \<bar>x\<bar>) \<le> \<bar>x\<bar>"
      using expoente_limites [of "\<bar>x\<bar>"] False by simp
    moreover have "(2::real) powi (e - 53) = 2 powi e / 2 ^ 53"
      by (simp add: power_int_diff)
    ultimately have "2 powi (e - 53) \<le> \<bar>x\<bar> / 2 ^ 53"
      by (simp add: divide_right_mono)
    with b show ?thesis
      by (smt (verit) divide_nonneg_nonneg zero_le_power zero_le_one zero_le_numeral)
  next
    case False
    then have "e = - 1022"
      by (simp add: e_def)
    then have "(2::real) powi (e - 53) = 1 / 2 ^ 1075"
      by (simp add: power_int_def field_simps)
    with b show ?thesis
      by (smt (verit) divide_nonneg_nonneg abs_ge_zero zero_le_power zero_le_numeral)
  qed
qed


lemma arred_perto:
  fixes x c :: real
  assumes "\<bar>x\<bar> \<le> c"
  shows "\<bar>arred x - x\<bar> \<le> c * (1111 / 10 ^ 19) + 1 / 10 ^ 30"
proof -
  have "\<bar>x\<bar> / 2 ^ 53 \<le> c / 2 ^ 53"
    using assms by (simp add: divide_right_mono)
  moreover have "c / 2 ^ 53 \<le> c * (1111 / 10 ^ 19)"
  proof -
    have "0 \<le> c"
      using assms by linarith
    moreover have "(1::real) / 2 ^ 53 \<le> 1111 / 10 ^ 19"
      by simp
    ultimately have "c * (1 / 2 ^ 53) \<le> c * (1111 / 10 ^ 19)"
      by (rule mult_left_mono [rotated])
    then show ?thesis
      by simp
  qed
  moreover have "(1::real) / 2 ^ 1075 \<le> 1 / 10 ^ 30"
    by simp
  ultimately show ?thesis
    using arred_erro [of x] by linarith
qed

lemma perto:
  fixes x y :: real
  shows "\<bar>y - x\<bar> \<le> e \<Longrightarrow> \<bar>x\<bar> \<le> c \<Longrightarrow> c + e \<le> b \<Longrightarrow> \<bar>y\<bar> \<le> b"
  by linarith

lemma perto_um_abs:
  fixes y :: real
  shows "\<bar>y - 1\<bar> \<le> c \<Longrightarrow> 1 + c \<le> b \<Longrightarrow> \<bar>y\<bar> \<le> b"
  by linarith

lemma perto_de_um:
  fixes d y :: real
  shows "\<bar>y - (1 + d)\<bar> \<le> e \<Longrightarrow> \<bar>d\<bar> \<le> c \<Longrightarrow> c + e \<le> b \<Longrightarrow> \<bar>y - 1\<bar> \<le> b"
  by linarith

section \<open>The simulated tick\<close>

lemma perturbacao_limitada:
  fixes p r :: real
  assumes "0 \<le> r" and "r < 1" and "1 / 2 ^ 1000 \<le> \<bar>p\<bar>"
  shows "\<bar>arred (p * arred (1 + arred (arred (arred (r - 0.5) * 1) / 100))) - p\<bar>
           \<le> (0.005 + 1 / 2 ^ 51) * \<bar>p\<bar>"
proof -
  define v where "v = arred (r - 0.5)"
  define v1 where "v1 = arred (v * 1)"
  define d where "d = arred (v1 / 100)"
  define s where "s = arred (1 + d)"
  define q where "q = arred (p * s)"
  have b0: "\<bar>r - 0.5\<bar> \<le> 0.5"
    using assms(1,2) by linarith
  have a1: "\<bar>v\<bar> \<le> 0.5 + 1 / 10 ^ 16"
    unfolding v_def by (rule perto [OF arred_perto [OF b0] b0]) simp
  have b1: "\<bar>v * 1\<bar> \<le> 0.5 + 1 / 10 ^ 16"
    using a1 by simp
  have a2: "\<bar>v1\<bar> \<le> 0.5 + 2 / 10 ^ 16"
    unfolding v1_def by (rule perto [OF arred_perto [OF b1] b1]) simp
  have b2: "\<bar>v1 / 100\<bar> \<le> 0.005 + 2 / 10 ^ 18"
    using a2 by simp
  have a3: "\<bar>d\<bar> \<le> 0.005 + 3 / 10 ^ 18"
    unfolding d_def by (rule perto [OF arred_perto [OF b2] b2]) simp
  have b3: "\<bar>1 + d\<bar> \<le> 1.005 + 3 / 10 ^ 18"
    using a3 by (simp add: abs_le_iff)
  have a4: "\<bar>s - 1\<bar> \<le> 0.005 + 115 / 10 ^ 18"
    unfolding s_def by (rule perto_de_um [OF arred_perto [OF b3] a3]) simp
  have a4': "\<bar>s\<bar> \<le> 1.0051"
    by (rule perto_um_abs [OF a4]) simp
  have ps: "\<bar>p * s\<bar> \<le> \<bar>p\<bar> * 1.0051"
    unfolding abs_mult using a4' by (intro mult_left_mono) simp_all
  have h: "(1::real) / 2 ^ 1075 \<le> \<bar>p\<bar> / 10 ^ 20"
  proof -
    have "(1::real) / 2 ^ 1075 \<le> (1 / 2 ^ 1000) / 10 ^ 20"
      by simp
    also have "\<dots> \<le> \<bar>p\<bar> / 10 ^ 20"
      using assms(3) by (simp add: divide_right_mono)
    finally show ?thesis .
  qed
  have "\<bar>q - p * s\<bar> \<le> \<bar>p * s\<bar> / 2 ^ 53 + 1 / 2 ^ 1075"
    unfolding q_def by (rule arred_erro)
  also have "\<dots> \<le> \<bar>p\<bar> * 1.0051 / 2 ^ 53 + \<bar>p\<bar> / 10 ^ 20"
    using ps h by (simp add: divide_right_mono add_mono)
  finally have a5: "\<bar>q - p * s\<bar> \<le> \<bar>p\<bar> * 1.0051 / 2 ^ 53 + \<bar>p\<bar> / 10 ^ 20" .
  have "p * s - p = p * (s - 1)"
    by (simp add: algebra_simps)
  then have "\<bar>p * s - p\<bar> = \<bar>p\<bar> * \<bar>s - 1\<bar>"
    by (simp add: abs_mult)
  also have "\<dots> \<le> \<bar>p\<bar> * (0.005 + 115 / 10 ^ 18)"
    using a4 by (intro mult_left_mono) simp_all
  finally have a6: "\<bar>p * s - p\<bar> \<le> \<bar>p\<bar> * (0.005 + 115 / 10 ^ 18)" .
  have "\<bar>q - p\<bar> \<le> \<bar>q - p * s\<bar> + \<bar>p * s - p\<bar>"
    by linarith
  with a5 a6 have "\<bar>q - p\<bar> \<le> \<bar>p\<bar> * 1.0051 / 2 ^ 53 + \<bar>p\<bar> / 10 ^ 20
      + \<bar>p\<bar> * (0.005 + 115 / 10 ^ 18)"
    by linarith
  also have "\<dots> \<le> (0.005 + 1 / 2 ^ 51) * \<bar>p\<bar>"
  proof -
    have "\<bar>p\<bar> * 1.0051 / 2 ^ 53 + \<bar>p\<bar> / 10 ^ 20 + \<bar>p\<bar> * (0.005 + 115 / 10 ^ 18)
        = \<bar>p\<bar> * (1.0051 / 2 ^ 53 + 1 / 10 ^ 20 + (0.005 + 115 / 10 ^ 18))"
      by (simp add: algebra_simps)
    also have "\<dots> \<le> \<bar>p\<bar> * (0.005 + 1 / 2 ^ 51)"
      by (intro mult_left_mono) simp_all
    finally show ?thesis
      by (simp add: mult.commute)
  qed
  finally show ?thesis
    unfolding q_def s_def d_def v1_def v_def .
qed

lemma cotar_preco:
  assumes "pa s = Some (Num p)"
  shows "preco (cotar pa rnd i s) =
           Num (arred (p * arred (1 + arred (arred (arred (rnd i - 0.5) * 1) / 100))))"
    and "cotacao.simbolo (cotar pa rnd i s) = s"
  using assms by (simp_all add: cotar_def ler_def Let_def)

lemma simularDadosPrecos_nth:
  assumes "i < 3"
  shows "simularDadosPrecos pa rnd ! i = cotar pa rnd i (simbolos ! i)"
proof -
  from assms have "i = 0 \<or> i = 1 \<or> i = 2"
    by arith
  then show ?thesis
    by (auto simp: simularDadosPrecos_def simbolos_def numeral_2_eq_2)
qed

lemma wti_sorteio_nulo:
  "arred (82.75 * arred (1 + arred (arred (arred (0 - 0.5) * 1) / 100))) =
     5793898512798187 / 2 ^ 46"
  by code_simp

text \<open>
  A counterexample to claim C2 as stated. With the draw 0 the script computes for WTI, from
  the stored 82.75, the double 5793898512798187 / 2^46 (printed 82.33624999999999). It
  lies below 82.75 by more than 0.5 per cent of 82.75.
\<close>

theorem tick_fora_de_meio_por_cento:
  "(1::nat) < 3 \<and> 0 \<le> sorteioNulo 1 \<and> sorteioNulo 1 < 1 \<and>
   precosAtuais0 (simbolos ! 1) = Some (Num 82.75) \<and>
   cotacao.simbolo (simularDadosPrecos precosAtuais0 sorteioNulo ! 1) = ''WTI'' \<and>
   preco (simularDadosPrecos precosAtuais0 sorteioNulo ! 1) = Num (5793898512798187 / 2 ^ 46) \<and>
   \<not> \<bar>5793898512798187 / 2 ^ 46 - 82.75\<bar> \<le> 0.005 * \<bar>82.75 :: real\<bar>"
proof -
  have h: "precosAtuais0 (simbolos ! 1) = Some (Num 82.75)"
    by (simp add: precosAtuais0_def simbolos_def)
  have "preco (simularDadosPrecos precosAtuais0 sorteioNulo ! 1) =
      Num (arred (82.75 * arred (1 + arred (arred (arred (0 - 0.5) * 1) / 100))))"
    using cotar_preco(1) [of precosAtuais0 "simbolos ! 1" "82.75" sorteioNulo 1, OF h]
    by (simp add: simularDadosPrecos_nth sorteioNulo_def)
  then have v: "preco (simularDadosPrecos precosAtuais0 sorteioNulo ! 1) =
      Num (5793898512798187 / 2 ^ 46)"
    by (simp only: wti_sorteio_nulo)
  have s: "cotacao.simbolo (simularDadosPrecos precosAtuais0 sorteioNulo ! 1) = ''WTI''"
    using cotar_preco(2) [of precosAtuais0 "simbolos ! 1" "82.75" sorteioNulo 1, OF h]
    by (simp add: simularDadosPrecos_nth simbolos_def)
  have "\<not> \<bar>5793898512798187 / 2 ^ 46 - 82.75\<bar> \<le> 0.005 * \<bar>82.75 :: real\<bar>"
    by simp
  with h v s show ?thesis
    by (simp add: sorteioNulo_def)
qed

text \<open>
  Claim C2, as amended. A tick produces one quote per tracked symbol, in the order BRENT,
  WTI, OPEC. For each of them, whatever the draw in [0, 1), when the stored price is
  between 2^-1000 and 2^1000 in magnitude (the new price is then neither among the
  subnormal doubles, where rounding is coarser, nor beyond the largest double), the quote
  carries the symbol and a price within 0.5 per cent of the stored price up to the
  rounding of the doubles: it differs from the stored price by at most 0.005 + 2^-51 times
  that price.
\<close>

theorem simulador_meio_por_cento:
  assumes "i < 3" and "0 \<le> rnd i" and "rnd i < 1" and "pa (simbolos ! i) = Some (Num p)"
    and "1 / 2 ^ 1000 \<le> \<bar>p\<bar>" and "\<bar>p\<bar> \<le> 2 ^ 1000"
  shows "length (simularDadosPrecos pa rnd) = 3 \<and>
         cotacao.simbolo (simularDadosPrecos pa rnd ! i) = simbolos ! i \<and>
         (\<exists>q. preco (simularDadosPrecos pa rnd ! i) = Num q \<and>
              \<bar>q - p\<bar> \<le> (0.005 + 1 / 2 ^ 51) * \<bar>p\<bar>)"
proof -
  have "length (simularDadosPrecos pa rnd) = 3"
    by (simp add: simularDadosPrecos_def simbolos_def)
  moreover have "cotacao.simbolo (simularDadosPrecos pa rnd ! i) = simbolos ! i"
    using assms(1,4) by (simp add: simularDadosPrecos_nth cotar_preco)
  moreover have "preco (simularDadosPrecos pa rnd ! i) =
      Num (arred (p * arred (1 + arred (arred (arred (rnd i - 0.5) * 1) / 100))))"
    using assms(1,4) by (simp add: simularDadosPrecos_nth cotar_preco)
  moreover note perturbacao_limitada [OF assms(2,3,5)]
  ultimately show ?thesis
    by blast
qed

text \<open>
  The draw 0 on the initial price of WTI, where the exact bound fails: the price computed
  is within the bound with the rounding allowed for.
\<close>

theorem simulador_meio_por_cento_witness:
  "(1::nat) < 3 \<and> 0 \<le> sorteioNulo 1 \<and> sorteioNulo 1 < 1 \<and>
   precosAtuais0 (simbolos ! 1) = Some (Num 82.75) \<and>
   1 / 2 ^ 1000 \<le> \<bar>82.75 :: real\<bar> \<and> \<bar>82.75 :: real\<bar> \<le> 2 ^ 1000 \<and>
   length (simularDadosPrecos precosAtuais0 sorteioNulo) = 3 \<and>
   cotacao.simbolo (simularDadosPrecos precosAtuais0 sorteioNulo ! 1) = ''WTI'' \<and>
   preco (simularDadosPrecos precosAtuais0 sorteioNulo ! 1) = Num (5793898512798187 / 2 ^ 46) \<and>
   \<bar>5793898512798187 / 2 ^ 46 - 82.75\<bar> \<le> (0.005 + 1 / 2 ^ 51) * \<bar>82.75 :: real\<bar>"
proof -
  have h: "precosAtuais0 (simbolos ! 1) = Some (Num 82.75)"
    by (simp add: precosAtuais0_def simbolos_def)
  have r: "0 \<le> sorteioNulo 1" "sorteioNulo 1 < 1"
    by (simp_all add: sorteioNulo_def)
  have m: "1 / 2 ^ 1000 \<le> \<bar>82.75 :: real\<bar>" "\<bar>82.75 :: real\<bar> \<le> 2 ^ 1000"
    by simp_all
  have "preco (simularDadosPrecos precosAtuais0 sorteioNulo ! 1) =
      Num (arred (82.75 * arred (1 + arred (arred (arred (0 - 0.5) * 1) / 100))))"
    using cotar_preco(1) [of precosAtuais0 "simbolos ! 1" "82.75" sorteioNulo 1, OF h]
    by (simp add: simularDadosPrecos_nth sorteioNulo_def)
  then have v: "preco (simularDadosPrecos precosAtuais0 sorteioNulo ! 1) =
      Num (5793898512798187 / 2 ^ 46)"
    by (simp only: wti_sorteio_nulo)
  from simulador_meio_por_cento [of 1 sorteioNulo precosAtuais0 "82.75", OF _ r h m] h r v
  show ?thesis
    by (simp add: simbolos_def)
qed

section \<open>The history listing\<close>

lemma ordenado_decrescente:
  "sorted_wrt (\<lambda>x y. dataCompra y \<le> dataCompra x) (sort_key (\<lambda>c. - dataCompra c) cs)"
proof -
  have "sorted (map (\<lambda>c. - dataCompra c) (sort_key (\<lambda>c. - dataCompra c) cs))"
    by (rule sorted_sort_key)
  then show ?thesis
    by (simp add: sorted_map)
qed

text \<open>
  Claim C6. When the database is open and the read succeeds, the history shows the empty
  state for an empty store, and otherwise exactly the stored purchases (each one, as often
  as it is stored), the later purchase before the earlier one.
\<close>

theorem historico_decrescente:
  assumes "db w = Some b" and "leituraOk a"
  shows "\<exists>w'. carregarHistorico a w = Inr w' \<and>
           (case listaHistorico w' of
              Vazio \<Rightarrow> Compras b = []
            | Itens xs \<Rightarrow>
                sorted_wrt (\<lambda>x y. dataCompra y \<le> dataCompra x) xs \<and>
                mset xs = mset (Compras b))"
  using assms by (simp add: carregarHistorico_def ordenado_decrescente)

text \<open>Three purchases stored out of order are listed latest first.\<close>

theorem historico_decrescente_witness:
  "db (mundo0\<lparr>db := Some \<lparr>PrecosHistoricos = [],
                          Compras = [compraEm 1000, compraEm 3000, compraEm 2000]\<rparr>\<rparr>) =
     Some \<lparr>PrecosHistoricos = [], Compras = [compraEm 1000, compraEm 3000, compraEm 2000]\<rparr> \<and>
   leituraOk ambiente0 \<and>
   map_sum id listaHistorico
     (carregarHistorico ambiente0
       (mundo0\<lparr>db := Some \<lparr>PrecosHistoricos = [],
                          Compras = [compraEm 1000, compraEm 3000, compraEm 2000]\<rparr>\<rparr>)) =
     Inr (Itens [compraEm 3000, compraEm 2000, compraEm 1000])"
proof -
  let ?b = "\<lparr>PrecosHistoricos = [], Compras = [compraEm 1000, compraEm 3000, compraEm 2000]\<rparr>"
  let ?w = "mundo0\<lparr>db := Some ?b\<rparr>"
  have d: "db ?w = Some ?b" and l: "leituraOk ambiente0"
    by (simp_all add: ambiente0_def)
  have "map_sum id listaHistorico (carregarHistorico ambiente0 ?w) =
     Inr (Itens [compraEm 3000, compraEm 2000, compraEm 1000])"
    by (simp add: carregarHistorico_def ambiente0_def compraEm_def)
  with historico_decrescente [OF d l] d l show ?thesis
    by simp
qed

section \<open>The purchase workflow\<close>

subsection \<open>What the form delivers\<close>

lemma herdadas_minusculas: "list_all (list_ex minuscula) herdadas"
  by (simp add: herdadas_def minuscula_def)

lemma sem_minuscula_nao_herdada: "\<not> list_ex minuscula s \<Longrightarrow> s \<notin> set herdadas"
  using herdadas_minusculas by (auto simp: list_all_iff)

subsection \<open>The steps of the handler\<close>


lemma salvarCompra_Inl:
  "salvarCompra a w c = Inl e \<Longrightarrow> db w = None \<or> gravacao a = Lancou"
  by (auto simp: salvarCompra_def split: option.splits pedido.splits)

lemma salvarCompra_Inr:
  assumes "salvarCompra a w c = Inr w1"
  shows "comprasDe w1 = comprasDe w @ (if gravacao a = Concluiu then [c] else [])"
    and "alertas w1 = alertas w" and "sugestaoIA w1 = sugestaoIA w"
    and "db w \<noteq> None" and "db w1 \<noteq> None" and "gravacao a \<noteq> Lancou"
  using assms
  by (auto simp: salvarCompra_def comprasDe_def split: option.splits pedido.splits)

lemma gravar_lancou: "db w = None \<or> gravacao a = Lancou \<Longrightarrow> \<exists>e. salvarCompra a w c = Inl e"
  by (auto simp: salvarCompra_def split: option.splits pedido.splits)

lemma gerarSugestaoIA_Inl: "gerarSugestaoIA a w s q p = Inl e \<Longrightarrow> sugestaoIA w = None"
  by (auto simp: gerarSugestaoIA_def Let_def split: option.splits sum.splits prod.splits)

lemma gerarSugestaoIA_Inr:
  assumes "gerarSugestaoIA a w s q p = Inr w2"
  shows "db w2 = db w" and "alertas w2 = alertas w" and "sugestaoIA w \<noteq> None"
  using assms
  by (auto simp: gerarSugestaoIA_def Let_def split: option.splits sum.splits prod.splits)

lemma carregarHistorico_Inl: "carregarHistorico a w = Inl e \<Longrightarrow> db w = None"
  by (auto simp: carregarHistorico_def split: option.splits if_splits)

lemma carregarHistorico_Inr:
  assumes "carregarHistorico a w = Inr w3"
  shows "db w3 = db w" and "alertas w3 = alertas w"
  using assms
  by (auto simp: carregarHistorico_def split: option.splits if_splits)

lemma comprasDe_db: "db w' = db w \<Longrightarrow> comprasDe w' = comprasDe w"
  by (simp add: comprasDe_def)

lemma tentarCompra_passos:
  "tentarCompra a w s q =
     (case salvarCompra a w (compraFeita a w s q) of
        Inl e \<Rightarrow> (Some e, w)
      | Inr w1 \<Rightarrow>
          (case gerarSugestaoIA a w1 s q (obterPrecoAtual w (sorteiosPreco a) s) of
             Inl e \<Rightarrow> (Some e, w1)
           | Inr w2 \<Rightarrow>
               (case carregarHistorico a w2 of
                  Inl e \<Rightarrow> (Some e, w2)
                | Inr w3 \<Rightarrow> (None, mostrarSucesso (textoSucesso q s) w3))))"
  unfolding tentarCompra_def compraFeita_def textoSucesso_def Let_def by (rule refl)

lemma tentarCompra_efeito:
  assumes "tentarCompra a w s q = (r, w')"
  shows "comprasDe w' =
           comprasDe w @ (if db w \<noteq> None \<and> gravacao a = Concluiu then [compraFeita a w s q] else []) \<and>
         (r = None) = (db w \<noteq> None \<and> gravacao a \<noteq> Lancou \<and> sugestaoIA w \<noteq> None) \<and>
         alertas w' = alertas w @ (if r = None then [sinalCerto @ '' '' @ textoSucesso q s] else [])"
proof (cases "salvarCompra a w (compraFeita a w s q)")
  case (Inl e)
  with assms have "r = Some e" "w' = w"
    by (simp_all add: tentarCompra_passos)
  with salvarCompra_Inl [OF Inl] show ?thesis
    by auto
next
  case (Inr w1)
  note s1 = salvarCompra_Inr [OF Inr]
  show ?thesis
  proof (cases "gerarSugestaoIA a w1 s q (obterPrecoAtual w (sorteiosPreco a) s)")
    case (Inl e)
    with assms Inr have "r = Some e" "w' = w1"
      by (simp_all add: tentarCompra_passos)
    with gerarSugestaoIA_Inl [OF Inl] s1 show ?thesis
      by auto
  next
    case g: (Inr w2)
    note s2 = gerarSugestaoIA_Inr [OF g]
    show ?thesis
    proof (cases "carregarHistorico a w2")
      case (Inl e)
      from carregarHistorico_Inl [OF Inl] s2(1) s1(5) show ?thesis
        by simp
    next
      case h: (Inr w3)
      note s3 = carregarHistorico_Inr [OF h]
      from assms Inr g h have r: "r = None" and w': "w' = mostrarSucesso (textoSucesso q s) w3"
        by (simp_all add: tentarCompra_passos)
      have "comprasDe w' = comprasDe w1"
        using w' s3(1) s2(1) by (simp add: comprasDe_def mostrarSucesso_def)
      moreover have "alertas w' = alertas w @ [sinalCerto @ '' '' @ textoSucesso q s]"
        using w' s3(2) s2(2) s1(2) by (simp add: mostrarSucesso_def)
      ultimately show ?thesis
        using r s1 s2(3) by auto
    qed
  qed
qed

lemma aoSubmeter_invalida:
  assumes "toUpperCase (trim cs) = [] \<or> menorIgual (parseInt cq) 0"
  shows "aoSubmeter a w cs cq = mostrarErro erroValidacao w"
  using assms by (auto simp: aoSubmeter_def Let_def)

lemma aoSubmeter_valida:
  assumes "toUpperCase (trim cs) \<noteq> []" and "\<not> menorIgual (parseInt cq) 0"
  shows "comprasDe (aoSubmeter a w cs cq) =
           comprasDe w @
           (if db w \<noteq> None \<and> gravacao a = Concluiu
            then [compraFeita a w (toUpperCase (trim cs)) (parseInt cq)] else []) \<and>
         alertas (aoSubmeter a w cs cq) =
           alertas w @
           [if db w \<noteq> None \<and> gravacao a \<noteq> Lancou \<and> sugestaoIA w \<noteq> None
            then sinalCerto @ '' '' @ textoSucesso (parseInt cq) (toUpperCase (trim cs))
            else sinalErrado @ '' '' @ erroCompra]"
proof -
  obtain r w' where t: "tentarCompra a w (toUpperCase (trim cs)) (parseInt cq) = (r, w')"
    by (cases "tentarCompra a w (toUpperCase (trim cs)) (parseInt cq)")
  note e = tentarCompra_efeito [OF t]
  show ?thesis
  proof (cases r)
    case None
    with assms t have "aoSubmeter a w cs cq = w'"
      by (simp add: aoSubmeter_def Let_def)
    with e None show ?thesis
      by auto
  next
    case (Some x)
    with assms t have "aoSubmeter a w cs cq = mostrarErro erroCompra w'"
      by (simp add: aoSubmeter_def Let_def)
    with e Some show ?thesis
      by (auto simp: mostrarErro_def comprasDe_def)
  qed
qed


subsection \<open>What a submission stores\<close>

lemmas texto_defs = trim_def trimEnd_def trimStart_def espaco1_def espaco2_def espaco3_def
  toUpperCase_def maiuscula_def parseInt_def digito_def valorDigitos_def

lemma preco_wti_exemplo: "obterPrecoAtual w (sorteiosPreco ambiente0) ''WTI'' = Numero (Num 82)"
  by (simp add: obterPrecoAtual_def precosSimulados_def ler_def ambiente0_def)

lemma compraFeita_exemplo:
  "compraFeita ambiente0 w ''WTI'' (Num 10) = compraEm 1762041600000"
  by (simp add: compraFeita_def compraEm_def preco_wti_exemplo) (simp add: ambiente0_def)



subsection \<open>Rejected submissions\<close>

lemma comprasDe_alertas: "comprasDe (w\<lparr>alertas := x\<rparr>) = comprasDe w"
  by (simp add: comprasDe_def)

lemma comprasDe_mostrarErro: "comprasDe (mostrarErro m w) = comprasDe w"
  by (simp add: comprasDe_def mostrarErro_def)

text \<open>
  Claim C5. A submission whose symbol is empty after trimming, or whose quantity parses to
  0, shows the validation error and changes nothing else: the state is the one before
  with that alert added, and the store holds the purchases it held.
\<close>

theorem submissao_invalida:
  assumes "trim cs = [] \<or> parseInt cq = Num 0"
  shows "aoSubmeter a w cs cq = w\<lparr>alertas := alertas w @ [sinalErrado @ '' '' @ erroValidacao]\<rparr> \<and>
         comprasDe (aoSubmeter a w cs cq) = comprasDe w"
proof -
  from assms have "toUpperCase (trim cs) = [] \<or> menorIgual (parseInt cq) 0"
    by (auto simp: toUpperCase_def)
  from aoSubmeter_invalida [OF this, of a w] show ?thesis
    by (simp add: mostrarErro_def comprasDe_def)
qed

text \<open>A symbol of white space only, and the quantity 0.\<close>

theorem submissao_invalida_witness:
  "trim [CHR 0x20, CHR 0x09, CHR 0xC2, CHR 0xA0] = [] \<and> parseInt ''0'' = Num 0 \<and>
   aoSubmeter ambiente0 mundo0 [CHR 0x20, CHR 0x09, CHR 0xC2, CHR 0xA0] ''10'' =
     mundo0\<lparr>alertas := [sinalErrado @ '' '' @ erroValidacao]\<rparr> \<and>
   aoSubmeter ambiente0 mundo0 ''WTI'' ''0'' =
     mundo0\<lparr>alertas := [sinalErrado @ '' '' @ erroValidacao]\<rparr> \<and>
   comprasDe (aoSubmeter ambiente0 mundo0 ''WTI'' ''0'') = []"
proof -
  have s: "trim [CHR 0x20, CHR 0x09, CHR 0xC2, CHR 0xA0] = []" and q: "parseInt ''0'' = Num 0"
    by (simp_all add: texto_defs)
  have v: "alertas mundo0 = []" "comprasDe mundo0 = []"
    by (simp_all add: mundo0_def comprasDe_def)
  from submissao_invalida [of "[CHR 0x20, CHR 0x09, CHR 0xC2, CHR 0xA0]" "''10''" ambiente0 mundo0]
    submissao_invalida [of "''WTI''" "''0''" ambiente0 mundo0] s q v
  show ?thesis
    by (simp add: comprasDe_alertas)
qed


subsection \<open>Steps that throw after the check\<close>

text \<open>
  The page is the one the script is written for: it has the suggestion panel. Then the only
  step of the \<^verbatim>\<open>try\<close> block that can throw is the save, when the database is not open or
  when opening the transaction or the call to add throws; it throws before anything is
  written.
\<close>

lemma entrada_exemplo: "toUpperCase (trim ''WTI'') = ''WTI''" "parseInt ''10'' = Num 10"
  by (simp_all add: texto_defs)

lemma aoSubmeter_nao_grava:
  assumes "toUpperCase (trim cs) \<noteq> []" and "\<not> menorIgual (parseInt cq) 0"
    and "db w = None \<or> gravacao a = Lancou"
  shows "aoSubmeter a w cs cq = mostrarErro erroCompra w"
proof -
  from gravar_lancou [OF assms(3)] obtain e where
    "salvarCompra a w (compraFeita a w (toUpperCase (trim cs)) (parseInt cq)) = Inl e"
    by blast
  then have "tentarCompra a w (toUpperCase (trim cs)) (parseInt cq) = (Some e, w)"
    by (simp add: tentarCompra_passos)
  with assms(1,2) show ?thesis
    by (simp add: aoSubmeter_def Let_def)
qed

lemma tentarCompra_lanca:
  assumes "fst (tentarCompra a w s q) \<noteq> None" and "sugestaoIA w \<noteq> None"
  shows "db w = None \<or> gravacao a = Lancou"
proof -
  obtain r w' where t: "tentarCompra a w s q = (r, w')"
    by (cases "tentarCompra a w s q")
  with assms(1) have "r \<noteq> None"
    by simp
  with tentarCompra_efeito [OF t] assms(2) show ?thesis
    by auto
qed

text \<open>
  Claim C7. On a page that has the suggestion panel, after the check has passed: when a
  step of the \<^verbatim>\<open>try\<close> block throws, the error alert is shown and nothing else changes, so
  the store holds the purchases it held; when no step throws, success is reported. In
  every case, either the store has gained the purchase, whole, and success is reported, or
  the store holds the purchases it held.
\<close>

theorem compra_atomica:
  assumes "toUpperCase (trim cs) \<noteq> []" and "\<not> menorIgual (parseInt cq) 0"
    and "sugestaoIA w \<noteq> None"
  shows "(fst (tentarCompra a w (toUpperCase (trim cs)) (parseInt cq)) \<noteq> None \<longrightarrow>
            aoSubmeter a w cs cq = mostrarErro erroCompra w \<and>
            alertas (aoSubmeter a w cs cq) = alertas w @ [sinalErrado @ '' '' @ erroCompra] \<and>
            comprasDe (aoSubmeter a w cs cq) = comprasDe w) \<and>
         (fst (tentarCompra a w (toUpperCase (trim cs)) (parseInt cq)) = None \<longrightarrow>
            alertas (aoSubmeter a w cs cq) =
              alertas w @ [sinalCerto @ '' '' @ textoSucesso (parseInt cq) (toUpperCase (trim cs))]) \<and>
         (comprasDe (aoSubmeter a w cs cq) =
            comprasDe w @ [compraFeita a w (toUpperCase (trim cs)) (parseInt cq)] \<and>
          alertas (aoSubmeter a w cs cq) =
            alertas w @ [sinalCerto @ '' '' @ textoSucesso (parseInt cq) (toUpperCase (trim cs))] \<or>
          comprasDe (aoSubmeter a w cs cq) = comprasDe w)"
proof (intro conjI impI)
  assume "fst (tentarCompra a w (toUpperCase (trim cs)) (parseInt cq)) \<noteq> None"
  from tentarCompra_lanca [OF this assms(3)] have "db w = None \<or> gravacao a = Lancou" .
  from aoSubmeter_nao_grava [OF assms(1,2) this]
  show "aoSubmeter a w cs cq = mostrarErro erroCompra w"
    and "alertas (aoSubmeter a w cs cq) = alertas w @ [sinalErrado @ '' '' @ erroCompra]"
    and "comprasDe (aoSubmeter a w cs cq) = comprasDe w"
    by (simp_all add: comprasDe_def mostrarErro_def)
next
  assume n: "fst (tentarCompra a w (toUpperCase (trim cs)) (parseInt cq)) = None"
  obtain r w' where t: "tentarCompra a w (toUpperCase (trim cs)) (parseInt cq) = (r, w')"
    by (cases "tentarCompra a w (toUpperCase (trim cs)) (parseInt cq)")
  with n have "r = None"
    by simp
  with tentarCompra_efeito [OF t] aoSubmeter_valida [OF assms(1,2), of a w]
  show "alertas (aoSubmeter a w cs cq) =
          alertas w @ [sinalCerto @ '' '' @ textoSucesso (parseInt cq) (toUpperCase (trim cs))]"
    by simp
next
  show "comprasDe (aoSubmeter a w cs cq) =
            comprasDe w @ [compraFeita a w (toUpperCase (trim cs)) (parseInt cq)] \<and>
          alertas (aoSubmeter a w cs cq) =
            alertas w @ [sinalCerto @ '' '' @ textoSucesso (parseInt cq) (toUpperCase (trim cs))] \<or>
          comprasDe (aoSubmeter a w cs cq) = comprasDe w"
  proof (cases "db w \<noteq> None \<and> gravacao a = Concluiu")
    case True
    with aoSubmeter_valida [OF assms(1,2), of a w] assms(3) show ?thesis
      by simp
  next
    case False
    with aoSubmeter_valida [OF assms(1,2), of a w]
    have "comprasDe (aoSubmeter a w cs cq) = comprasDe w"
      by auto
    then show ?thesis
      by simp
  qed
qed

text \<open>
  Ten barrels of WTI on the complete page: no step throws, the purchase is stored and
  success is reported. The same before the database is open: the save throws, the error
  alert is shown and nothing is stored.
\<close>

theorem compra_atomica_witness:
  "toUpperCase (trim ''WTI'') \<noteq> [] \<and> \<not> menorIgual (parseInt ''10'') 0 \<and>
   sugestaoIA mundo0 \<noteq> None \<and> sugestaoIA mundoSemBanco \<noteq> None \<and>
   fst (tentarCompra ambiente0 mundo0 ''WTI'' (Num 10)) = None \<and>
   alertas (aoSubmeter ambiente0 mundo0 ''WTI'' ''10'') =
     [sinalCerto @ '' '' @ textoSucesso (Num 10) ''WTI''] \<and>
   comprasDe (aoSubmeter ambiente0 mundo0 ''WTI'' ''10'') = [compraEm 1762041600000] \<and>
   fst (tentarCompra ambiente0 mundoSemBanco ''WTI'' (Num 10)) \<noteq> None \<and>
   aoSubmeter ambiente0 mundoSemBanco ''WTI'' ''10'' = mostrarErro erroCompra mundoSemBanco \<and>
   alertas (aoSubmeter ambiente0 mundoSemBanco ''WTI'' ''10'') = [sinalErrado @ '' '' @ erroCompra] \<and>
   comprasDe (aoSubmeter ambiente0 mundoSemBanco ''WTI'' ''10'') = []"
proof -
  have v: "toUpperCase (trim ''WTI'') \<noteq> []" "\<not> menorIgual (parseInt ''10'') 0"
    by (simp_all add: entrada_exemplo)
  have p: "sugestaoIA mundo0 \<noteq> None" "sugestaoIA mundoSemBanco \<noteq> None"
    by (simp_all add: mundoSemBanco_def mundo0_def)
  have m: "alertas mundo0 = []" "comprasDe mundo0 = []"
    "alertas mundoSemBanco = []" "comprasDe mundoSemBanco = []"
    by (simp_all add: mundoSemBanco_def mundo0_def comprasDe_def)
  have "fst (tentarCompra ambiente0 mundoSemBanco ''WTI'' (Num 10)) = Some TypeError"
    by (simp add: tentarCompra_passos salvarCompra_def mundoSemBanco_def)
  then have b: "fst (tentarCompra ambiente0 mundoSemBanco ''WTI'' (Num 10)) \<noteq> None"
    by simp
  obtain r w' where t: "tentarCompra ambiente0 mundo0 ''WTI'' (Num 10) = (r, w')"
    by (cases "tentarCompra ambiente0 mundo0 ''WTI'' (Num 10)")
  from tentarCompra_efeito [OF t] have "r = None"
    by (simp add: mundo0_def ambiente0_def)
  with t have c: "fst (tentarCompra ambiente0 mundo0 ''WTI'' (Num 10)) = None"
    by simp
  have "db mundo0 \<noteq> None" "gravacao ambiente0 = Concluiu"
    by (simp_all add: mundo0_def ambiente0_def)
  with aoSubmeter_valida [OF v, of ambiente0 mundo0] m
  have g: "comprasDe (aoSubmeter ambiente0 mundo0 ''WTI'' ''10'') = [compraEm 1762041600000]"
    by (simp add: entrada_exemplo compraFeita_exemplo)
  from compra_atomica [OF v p(1), of ambiente0] compra_atomica [OF v p(2), of ambiente0] v p m b c g
  show ?thesis
    by (simp add: entrada_exemplo compraFeita_exemplo mostrarErro_def comprasDe_alertas)
qed

section \<open>The suggestion text\<close>

lemma frase_partes:
  "frase c q s p vt t =
     (''Baseado na an'' @ aAgudo @ ''lise de mercado com '') @ mostrarInt (Num c) @ ''% de confian'' @
     (cCedilha @ ''a, sua compra de '' @ mostrarInt q @ '' barris de '' @ s @
      '' por $'' @ toFixed2 p @ '' (total: $'' @ toFixed2 vt @ '') est'' @ aAgudo @
      '' em um momento '' @
      (if t = ''alta'' then ''favor'' @ aAgudo @ ''vel''
       else ''de aten'' @ cCedilha @ aTil @ ''o'') @
      ''. A tend'' @ eCircunflexo @ ''ncia atual indica '' @ t @ '' nos pr'' @ oAgudo @
      ''ximos 7-14 dias. Recomendamos '' @
      (if t = ''alta'' then ''manter a posi'' @ cCedilha @ aTil @ ''o e considerar aumentar''
       else ''monitorar de perto e considerar diversificar'') @
      '' seu portf'' @ oAgudo @ ''lio. '' @
      (if t = ''alta'' then sinalSobe @ '' Perspectiva positiva para ganhos.''
       else sinalBarras @ '' Mantenha-se atento '' @ aGrave @ ''s flutua'' @ cCedilha @ oTil @ ''es.''))"
  unfolding frase_def by simp

lemma frase_tendencia:
  "\<exists>antes depois. frase c q s p vt t = antes @ ''atual indica '' @ t @ '' nos pr'' @ depois"
proof -
  have "frase c q s p vt t =
     (''Baseado na an'' @ aAgudo @ ''lise de mercado com '' @ mostrarInt (Num c) @ ''% de confian'' @
      cCedilha @ ''a, sua compra de '' @ mostrarInt q @ '' barris de '' @ s @
      '' por $'' @ toFixed2 p @ '' (total: $'' @ toFixed2 vt @ '') est'' @ aAgudo @
      '' em um momento '' @
      (if t = ''alta'' then ''favor'' @ aAgudo @ ''vel''
       else ''de aten'' @ cCedilha @ aTil @ ''o'') @
      ''. A tend'' @ eCircunflexo @ ''ncia '') @ ''atual indica '' @ t @ '' nos pr'' @
      (oAgudo @
      ''ximos 7-14 dias. Recomendamos '' @
      (if t = ''alta'' then ''manter a posi'' @ cCedilha @ aTil @ ''o e considerar aumentar''
       else ''monitorar de perto e considerar diversificar'') @
      '' seu portf'' @ oAgudo @ ''lio. '' @
      (if t = ''alta'' then sinalSobe @ '' Perspectiva positiva para ganhos.''
       else sinalBarras @ '' Mantenha-se atento '' @ aGrave @ ''s flutua'' @ cCedilha @ oTil @ ''es.''))"
    unfolding frase_def by simp
  then show ?thesis
    by blast
qed

lemma confianca_intervalo:
  fixes r :: real
  assumes "0 \<le> r" and "r < 1"
  shows "70 \<le> \<lfloor>r * 20\<rfloor> + 70 \<and> \<lfloor>r * 20\<rfloor> + 70 \<le> 89"
proof -
  from assms have "0 \<le> r * 20" and "r * 20 < 20"
    by simp_all
  then have "0 \<le> \<lfloor>r * 20\<rfloor>" and "\<lfloor>r * 20\<rfloor> < 20"
    by (simp_all add: floor_less_iff)
  then show ?thesis
    by simp
qed

text \<open>
  Claim C8. For every symbol, quantity and price, and every draw in [0, 1), the suggestion
  comes after the fixed delay of 2000 ms and is the template filled with a confidence
  between 70 and 89 (so within 70 to 90) and one of the two trend labels; the sentence
  holds the confidence before its per cent sign and the label after "atual indica".
\<close>

theorem sugestao_confianca_e_tendencia:
  assumes "0 \<le> rnd 1" and "rnd 1 < 1"
  shows "\<exists>c t. 70 \<le> c \<and> c \<le> 89 \<and> (t = ''alta'' \<or> t = ''baixa'') \<and>
           simularRespostaIA rnd s q (Numero p) =
             Inr (2000, frase c q s p (vezes (paraReal q) p) t) \<and>
           (\<exists>antes depois.
              frase c q s p (vezes (paraReal q) p) t =
                antes @ mostrarInt (Num c) @ ''% de confian'' @ depois) \<and>
           (\<exists>antes depois.
              frase c q s p (vezes (paraReal q) p) t =
                antes @ ''atual indica '' @ t @ '' nos pr'' @ depois)"
proof -
  let ?c = "\<lfloor>rnd 1 * 20\<rfloor> + 70"
  let ?t = "if rnd 0 > 0.5 then ''alta'' else ''baixa''"
  have "simularRespostaIA rnd s q (Numero p) = Inr (2000, frase ?c q s p (vezes (paraReal q) p) ?t)"
    by (simp add: simularRespostaIA_def Let_def)
  moreover have "?t = ''alta'' \<or> ?t = ''baixa''"
    by simp
  moreover note confianca_intervalo [OF assms]
  moreover have "\<exists>antes depois.
      frase ?c q s p (vezes (paraReal q) p) ?t = antes @ mostrarInt (Num ?c) @ ''% de confian'' @ depois"
    using frase_partes by blast
  moreover note frase_tendencia [of ?c q s p "vezes (paraReal q) p" ?t]
  ultimately show ?thesis
    by blast
qed

text \<open>The draws 0.7 and 0.37 give the label "alta" and the confidence 77.\<close>

theorem sugestao_confianca_e_tendencia_witness:
  "0 \<le> sorteiosIA ambiente0 1 \<and> sorteiosIA ambiente0 1 < 1 \<and>
   simularRespostaIA (sorteiosIA ambiente0) ''WTI'' (Num 10) (Numero (Num 82)) =
     Inr (2000, frase 77 (Num 10) ''WTI'' (Num 82) (Num 820) ''alta'') \<and>
   take 38 (frase 77 (Num 10) ''WTI'' (Num 82) (Num 820) ''alta'') =
     ''Baseado na an'' @ aAgudo @ ''lise de mercado com 77%''"
proof -
  have r: "0 \<le> sorteiosIA ambiente0 1" "sorteiosIA ambiente0 1 < 1"
    by (simp_all add: ambiente0_def)
  have v: "simularRespostaIA (sorteiosIA ambiente0) ''WTI'' (Num 10) (Numero (Num 82)) =
     Inr (2000, frase 77 (Num 10) ''WTI'' (Num 82) (Num 820) ''alta'')"
    by (simp add: simularRespostaIA_def ambiente0_def Let_def)
  have t: "take 38 (frase 77 (Num 10) ''WTI'' (Num 82) (Num 820) ''alta'') =
     ''Baseado na an'' @ aAgudo @ ''lise de mercado com 77%''"
    by (simp add: frase_def aAgudo_def mostrarInt_def mostrarNat.simps algarismo_def)
  from sugestao_confianca_e_tendencia [of "sorteiosIA ambiente0" "''WTI''" "Num 10" "Num 82", OF r] r v t
  show ?thesis
    by simp
qed

section \<open>The price fetched for a purchase\<close>

lemma comprasDe_globais:
  "comprasDe (w\<lparr>precosAtuais := pa, historicoSparkline := hs\<rparr>) = comprasDe w"
  by (simp add: comprasDe_def)

lemma compraFeita_globais:
  "compraFeita a (w\<lparr>precosAtuais := pa, historicoSparkline := hs\<rparr>) s q = compraFeita a w s q"
  by (simp add: compraFeita_def obterPrecoAtual_def)

text \<open>
  Claim C9. The price fetched for a purchase is the same in any two states of the script,
  given the same draws and symbol; and changing the cache of current prices and the
  sparkline histories before a submission changes nothing of what the submission stores.
\<close>

theorem preco_da_compra_independente:
  "obterPrecoAtual w1 rnd s = obterPrecoAtual w2 rnd s \<and>
   comprasDe (aoSubmeter a (w\<lparr>precosAtuais := pa, historicoSparkline := hs\<rparr>) cs cq) =
     comprasDe (aoSubmeter a w cs cq)"
proof
  show "obterPrecoAtual w1 rnd s = obterPrecoAtual w2 rnd s"
    by (simp add: obterPrecoAtual_def)
next
  let ?w = "w\<lparr>precosAtuais := pa, historicoSparkline := hs\<rparr>"
  show "comprasDe (aoSubmeter a ?w cs cq) = comprasDe (aoSubmeter a w cs cq)"
  proof (cases "toUpperCase (trim cs) = [] \<or> menorIgual (parseInt cq) 0")
    case True
    then show ?thesis
      by (simp only: aoSubmeter_invalida comprasDe_mostrarErro comprasDe_globais)
  next
    case False
    then have v: "toUpperCase (trim cs) \<noteq> []" "\<not> menorIgual (parseInt cq) 0"
      by simp_all
    from aoSubmeter_valida [OF v, of a ?w] aoSubmeter_valida [OF v, of a w]
    show ?thesis
      by (simp add: comprasDe_globais compraFeita_globais)
  qed
qed

text \<open>WTI with the draw 0.125 costs 82.00, with the price cache as it starts or emptied.\<close>

theorem preco_da_compra_independente_witness:
  "obterPrecoAtual mundo0 (sorteiosPreco ambiente0) ''WTI'' = Numero (Num 82) \<and>
   obterPrecoAtual (mundo0\<lparr>precosAtuais := Map.empty\<rparr>) (sorteiosPreco ambiente0) ''WTI'' =
     Numero (Num 82)"
  using preco_da_compra_independente
    [of mundo0 "sorteiosPreco ambiente0" "''WTI''" "mundo0\<lparr>precosAtuais := Map.empty\<rparr>"]
  by (simp add: preco_wti_exemplo)

lemma aoSubmeter_aposLeitura:
  "aoSubmeter a w cs cq = aposLeitura a w (toUpperCase (trim cs)) (parseInt cq)"
  by (simp add: aoSubmeter_def aposLeitura_def Let_def)

lemma preco_desconhecido:
  assumes "s \<notin> set simbolos" and "s \<notin> set herdadas"
  shows "obterPrecoAtual w rnd s = Numero (Num 80)"
  using assms by (simp add: obterPrecoAtual_def precosSimulados_def ler_def simbolos_def)

text \<open>
  Claim C10. The symbol the handler holds has been upper-cased: it has no letter a to z, and
  so it is not the name of a member that every object inherits. When it is not empty and
  not one of BRENT, WTI, OPEC, the price fetched is exactly 80.0; with a quantity that is a
  positive integer, an open database and a request to add that completes, the handler
  stores the purchase it built, under that symbol, at 80.0 a barrel. No step compares the
  symbol with the tracked ones.
\<close>

theorem simbolo_nao_cotado_custa_80:
  assumes "s \<noteq> []" and "s \<notin> set simbolos" and "\<not> list_ex minuscula s"
    and "0 < n" and "db w = Some b" and "gravacao a = Concluiu"
  shows "obterPrecoAtual w (sorteiosPreco a) s = Numero (Num 80) \<and>
         comprasDe (aposLeitura a w s (Num n)) = Compras b @ [compraFeita a w s (Num n)] \<and>
         simbolo (compraFeita a w s (Num n)) = s \<and>
         quantidade (compraFeita a w s (Num n)) = Num n \<and>
         precoCompra (compraFeita a w s (Num n)) = Numero (Num 80)"
proof -
  have p: "obterPrecoAtual w (sorteiosPreco a) s = Numero (Num 80)"
    using assms(2) sem_minuscula_nao_herdada [OF assms(3)] by (rule preco_desconhecido)
  obtain r w' where t: "tentarCompra a w s (Num n) = (r, w')"
    by (cases "tentarCompra a w s (Num n)")
  from tentarCompra_efeito [OF t] assms(5,6)
  have "comprasDe w' = Compras b @ [compraFeita a w s (Num n)]"
    by (simp add: comprasDe_def)
  with t assms(1,4)
  have "comprasDe (aposLeitura a w s (Num n)) = Compras b @ [compraFeita a w s (Num n)]"
    by (cases r) (simp_all add: aposLeitura_def comprasDe_mostrarErro)
  with p show ?thesis
    by (simp add: compraFeita_def)
qed

text \<open>
  Three barrels of "gold": the handler holds GOLD and 3, and the purchase is stored as
  GOLD at 80.0, total 240.
\<close>

theorem simbolo_nao_cotado_custa_80_witness:
  "''GOLD'' \<noteq> [] \<and> ''GOLD'' \<notin> set simbolos \<and> \<not> list_ex minuscula ''GOLD'' \<and> 0 < (3::int) \<and>
   db mundo0 = Some \<lparr>PrecosHistoricos = [], Compras = []\<rparr> \<and> gravacao ambiente0 = Concluiu \<and>
   obterPrecoAtual mundo0 (sorteiosPreco ambiente0) ''GOLD'' = Numero (Num 80) \<and>
   comprasDe (aposLeitura ambiente0 mundo0 ''GOLD'' (Num 3)) =
     [\<lparr>simbolo = ''GOLD'', quantidade = Num 3, precoCompra = Numero (Num 80),
       valorTotal = Num 240, dataCompra = 1762041600000\<rparr>] \<and>
   aoSubmeter ambiente0 mundo0 ''gold'' ''3'' = aposLeitura ambiente0 mundo0 ''GOLD'' (Num 3)"
proof -
  have s: "toUpperCase (trim ''gold'') = ''GOLD''" and q: "parseInt ''3'' = Num 3"
    by (simp_all add: texto_defs)
  have m: "db mundo0 = Some \<lparr>PrecosHistoricos = [], Compras = []\<rparr>" "gravacao ambiente0 = Concluiu"
    "agora ambiente0 = 1762041600000"
    by (simp_all add: mundo0_def ambiente0_def)
  have f: "''GOLD'' \<notin> set simbolos" "\<not> list_ex minuscula ''GOLD''"
    by (simp_all add: simbolos_def minuscula_def)
  from simbolo_nao_cotado_custa_80 [of "''GOLD''" 3 mundo0 _ ambiente0, OF _ f _ m(1,2)] m f
  show ?thesis
    by (simp add: compraFeita_def aoSubmeter_aposLeitura s q)
qed

section \<open>The quantity check\<close>

text \<open>
  Claim C4 at a quantity that is not a number. The check \<^verbatim>\<open>quantidade <= 0\<close> is false for
  \<^verbatim>\<open>NaN\<close>: the submission of WTI with the quantity "abc" is not rejected. The price is
  fetched, a purchase of \<^verbatim>\<open>NaN\<close> barrels with the total \<^verbatim>\<open>NaN\<close> is stored, and success is
  reported.
\<close>

theorem quantidade_nao_numerica_aceita:
  "parseInt ''abc'' = NaN \<and> parseInt [] = NaN \<and>
   comprasDe (aoSubmeter ambiente0 mundo0 ''WTI'' ''abc'') =
     [\<lparr>simbolo = ''WTI'', quantidade = NaN, precoCompra = Numero (Num 82),
       valorTotal = NaN, dataCompra = 1762041600000\<rparr>] \<and>
   alertas (aoSubmeter ambiente0 mundo0 ''WTI'' ''abc'') =
     [sinalCerto @ '' '' @ sinalCerto @ '' Compra de NaN barris de WTI realizada com sucesso!'']"
proof -
  have s: "toUpperCase (trim ''WTI'') = ''WTI''" and q: "parseInt ''abc'' = NaN" "parseInt [] = NaN"
    by (simp_all add: texto_defs)
  have m: "db mundo0 \<noteq> None" "gravacao ambiente0 = Concluiu" "sugestaoIA mundo0 \<noteq> None"
    "alertas mundo0 = []" "comprasDe mundo0 = []" "agora ambiente0 = 1762041600000"
    by (simp_all add: mundo0_def ambiente0_def comprasDe_def)
  from aoSubmeter_valida [of "''WTI''" "''abc''" ambiente0 mundo0] s q m
  show ?thesis
    by (simp add: compraFeita_def preco_wti_exemplo textoSucesso_def mostrarInt_def)
qed

end
